theory Spec2Isabelle
  imports Complex_Main "HOL-Library.Word"
begin

section \<open>The host engine as the demos see it\<close>

text \<open>
  Both demos are glue over an external 3D engine.  What a demo does is: change the fields of
  its own object, and call the engine.  The engine is not part of the repository, so its
  state is not modelled; a run is described by the demo object it leaves and by the
  sequence of engine calls it makes, each with its arguments and, for a constructor, the
  object it returned.  Engine objects are references; every constructor call returns a
  reference that was not handed out before.

  Numeric constants of the source are kept with their exact value (a \<open>rat\<close>); the
  engine turns them into 32-bit floats on its side of the call.  Go's \<open>int32\<close> is a
  32-bit word.  A colour is plain data, so \<open>math32.NewColor\<close> and the literal
  \<open>&math32.Color{1, 1, 1}\<close> are values, not logged calls.  A pointer that can be nil is
  an \<open>option\<close>.
\<close>

type_synonym ref = nat

type_synonym err = string

datatype Color = Color rat rat rat

definition math32_NewColor :: "rat \<Rightarrow> rat \<Rightarrow> rat \<Rightarrow> Color" where
  "math32_NewColor r g b = Color r g b"

datatype Side = SideFront | SideBack | SideDouble

datatype evname = gui_OnChange

text \<open>The three \<open>gls.Uniform1i\<close> fields of \<open>NormalsMaterial\<close>.\<close>

datatype Uniform = ShowWireframe | ShowVnormal | ShowFnormal

text \<open>
  The four closures that \<open>ShaderGeometry.Initialize\<close> subscribes, each with what it
  captures besides the demo object: the shared material \<open>mat\<close>.
\<close>

datatype handler =
    onChange_Rotate
  | onChange_Wireframe ref
  | onChange_Vnormal ref
  | onChange_Fnormal ref

datatype call =
    gui_NewLabel string ref
  | SetFontSize ref rat
  | SetPosition2 ref rat rat
  | Add ref ref
  | light_NewDirectional Color rat ref
  | SetPosition ref rat rat rat
  | graphic_NewAxisHelper rat ref
  | AddShader ref string string
  | AddProgram ref string string string string
  | Material_Init ref
  | SetShader ref string
  | Uniform_Init ref Uniform string
  | Uniform_Set ref Uniform "32 word"
  | Uniform_Transfer ref Uniform ref
  | Material_RenderSetup ref ref
  | Incref ref
  | geometry_NewPlane rat rat int int ref
  | geometry_NewBox rat rat rat int int int ref
  | geometry_NewSphere rat int int rat rat rat rat ref
  | graphic_NewMesh ref "ref option" ref
  | AddGroup ref string ref
  | AddCheckBox ref string ref
  | SetValue ref bool
  | Subscribe ref evname handler
  | AddRotationX ref rat
  | AddRotationY ref rat
  | AddRotationZ ref rat
  | texture_NewTexture2DFromImage string "err + ref"
  | Fatal ref string err
  | material_NewStandard Color ref
  | AddTexture ref ref
  | SetSide ref Side
  | AddGroupMaterial ref ref int

text \<open>
  \<open>calls\<close> is the log of engine calls so far, \<open>next_ref\<close> the next fresh reference,
  and \<open>image_error\<close> says for which paths the engine's texture loader fails, and how.
\<close>

record world =
  calls :: "call list"
  next_ref :: ref
  image_error :: "string \<Rightarrow> err option"

definition call :: "call \<Rightarrow> world \<Rightarrow> world" where
  "call c w = w\<lparr>calls := calls w @ [c]\<rparr>"

definition alloc :: "world \<Rightarrow> ref \<times> world" where
  "alloc w = (next_ref w, w\<lparr>next_ref := Suc (next_ref w)\<rparr>)"

definition new :: "(ref \<Rightarrow> call) \<Rightarrow> world \<Rightarrow> ref \<times> world" where
  "new f w = (let (r, w) = alloc w in (r, call (f r) w))"

text \<open>The calls made since the world \<open>w0\<close>.\<close>

definition emitted :: "world \<Rightarrow> world \<Rightarrow> call list" where
  "emitted w0 w = drop (length (calls w0)) (calls w)"

text \<open>
  What ends a run early: a method call on a nil pointer, and the host's \<open>Fatal\<close>, which
  logs and aborts.
\<close>

datatype panic = NilPointerDereference | LogFatal

section \<open>The geometry shader demo\<close>

text \<open>
  The host's \<open>Context\<close>: its declaration is not among the sources.  The demo reads
  \<open>Gui\<close>, \<open>Scene\<close>, \<open>Renderer\<close> and \<open>Control\<close>, and only \<open>Control\<close> is tested
  for nil.  \<open>FrameDelta\<close> stands for the delta-time the host supplies with a frame.
\<close>

record Context =
  Gui :: ref
  Scene :: ref
  Renderer :: ref
  Control :: "ref option"
  FrameDelta :: rat

text \<open>
  The demo object.  Its field \<open>rotate\<close> is \<open>rotate_flag\<close> here, and the constant
  \<open>help\<close> of \<open>Initialize\<close> is \<open>help_text\<close>, as Isabelle has these names already.
  No method assigns the field \<open>ctx\<close>.
\<close>

record ShaderGeometry =
  ctx :: "Context option"
  plane :: "ref option"
  box :: "ref option"
  sphere :: "ref option"
  showWireframe :: "32 word"
  showVnormal :: "32 word"
  showFnormal :: "32 word"
  rotate_flag :: bool

text \<open>The value of \<open>&ShaderGeometry{}\<close>.\<close>

definition ShaderGeometry_zero :: ShaderGeometry where
  "ShaderGeometry_zero =
     \<lparr>ctx = None, plane = None, box = None, sphere = None,
      showWireframe = 0, showVnormal = 0, showFnormal = 0, rotate_flag = False\<rparr>"

definition TAB :: string where
  "TAB = [CHR 0x09]"

definition NL :: string where
  "NL = [CHR 0x0A]"

definition sourceGSDemoVertex :: string where
  \<open>sourceGSDemoVertex = concat
    [NL,
     ''#version {{.Version}}'' @ NL,
     NL,
     ''{{template "attributes" .}}'' @ NL,
     NL,
     ''// Outputs for geometry shader'' @ NL,
     ''out vec3 vnormal;'' @ NL,
     NL,
     ''void main() {'' @ NL,
     NL,
     TAB @ ''gl_Position = vec4(VertexPosition, 1.0);'' @ NL,
     ''  '' @ TAB @ ''vnormal = VertexNormal;'' @ NL,
     ''}'' @ NL,
     NL]\<close>

definition sourceGSDemoGeometry :: string where
  \<open>sourceGSDemoGeometry = concat
    [NL,
     ''#version {{.Version}}'' @ NL,
     NL,
     ''layout (triangles) in;'' @ NL,
     ''layout (line_strip, max_vertices = 12) out;'' @ NL,
     NL,
     ''// Model uniforms'' @ NL,
     ''uniform mat4 MVP;'' @ NL,
     NL,
     ''// Inputs from Vertex Shader'' @ NL,
     ''in vec3 vnormal[];'' @ NL,
     NL,
     ''// Inputs uniforms'' @ NL,
     ''uniform int ShowWireframe;'' @ NL,
     ''uniform int ShowVnormal;'' @ NL,
     ''uniform int ShowFnormal;'' @ NL,
     NL,
     ''// Colors'' @ NL,
     ''const vec4 colorWire    = vec4(1, 1, 0, 1);'' @ NL,
     ''const vec4 colorVnormal = vec4(1, 0, 0, 1);'' @ NL,
     ''const vec4 colorFnormal = vec4(0, 0, 1, 1);'' @ NL,
     NL,
     ''// Output color to fragment shader'' @ NL,
     ''out vec4 vertex_color;'' @ NL,
     NL,
     ''void main() {'' @ NL,
     NL,
     TAB @ ''// Emits triangle's vertices as lines to show wireframe'' @ NL,
     TAB @ ''if (ShowWireframe != 0) {'' @ NL,
     TAB @ TAB @ ''for (int n = 0; n < gl_in.length(); n++) {'' @ NL,
     TAB @ TAB @ TAB @ ''// Vertex position'' @ NL,
     TAB @ TAB @ TAB @ ''gl_Position = MVP * gl_in[n].gl_Position;'' @ NL,
     TAB @ TAB @ TAB @ ''vertex_color = colorWire;'' @ NL,
     TAB @ TAB @ TAB @ ''EmitVertex();'' @ NL,
     TAB @ TAB @ ''}'' @ NL,
     TAB @ TAB @ ''// Emit first triangle vertex to close the last line strip.'' @ NL,
     TAB @ TAB @ ''gl_Position = MVP * gl_in[0].gl_Position;'' @ NL,
     TAB @ TAB @ ''vertex_color = colorWire;'' @ NL,
     TAB @ TAB @ ''EmitVertex();'' @ NL,
     TAB @ TAB @ ''EndPrimitive();'' @ NL,
     TAB @ ''}'' @ NL,
     NL,
     TAB @ ''// Emits lines representing the vertices normals'' @ NL,
     TAB @ ''if (ShowVnormal != 0) {'' @ NL,
     TAB @ TAB @ ''for (int i = 0; i < gl_in.length(); i++) {'' @ NL,
     NL,
     TAB @ TAB @ TAB @ ''vec3 position = gl_in[i].gl_Position.xyz;'' @ NL,
     TAB @ TAB @ TAB @ ''vec3 normal = vnormal[i];'' @ NL,
     TAB @ TAB @ TAB @ NL,
     TAB @ TAB @ TAB @ ''gl_Position = MVP * vec4(position, 1.0);'' @ NL,
     TAB @ TAB @ TAB @ ''vertex_color = colorVnormal;'' @ NL,
     TAB @ TAB @ TAB @ ''EmitVertex();'' @ NL,
     TAB @ TAB @ TAB @ NL,
     TAB @ TAB @ TAB @ ''gl_Position = MVP * vec4(position + normal * 0.5, 1.0);'' @ NL,
     TAB @ TAB @ TAB @ ''vertex_color = colorVnormal;'' @ NL,
     TAB @ TAB @ TAB @ ''EmitVertex();'' @ NL,
     TAB @ TAB @ TAB @ NL,
     TAB @ TAB @ TAB @ ''EndPrimitive();'' @ NL,
     TAB @ TAB @ ''}'' @ NL,
     TAB @ ''}'' @ NL,
     NL,
     TAB @ ''// Emits one line representing the face normal'' @ NL,
     TAB @ ''if (ShowFnormal != 0) {'' @ NL,
     TAB @ TAB @ ''vec3 p0 = gl_in[0].gl_Position.xyz;'' @ NL,
     TAB @ TAB @ ''vec3 p1 = gl_in[1].gl_Position.xyz;'' @ NL,
     TAB @ TAB @ ''vec3 p2 = gl_in[2].gl_Position.xyz;'' @ NL,
     TAB @ ''  '' @ NL,
     TAB @ TAB @ ''vec3 v0 = p0 - p1;'' @ NL,
     TAB @ TAB @ ''vec3 v1 = p2 - p1;'' @ NL,
     TAB @ TAB @ ''vec3 faceN = normalize(cross(v1, v0));'' @ NL,
     NL,
     TAB @ TAB @ ''// Center of the triangle'' @ NL,
     TAB @ TAB @ ''vec3 center = (p0 + p1 + p2) / 3.0;'' @ NL,
     TAB @ ''  '' @ NL,
     TAB @ TAB @ ''gl_Position = MVP * vec4(center, 1.0);'' @ NL,
     TAB @ TAB @ ''vertex_color = colorFnormal;'' @ NL,
     TAB @ TAB @ ''EmitVertex();'' @ NL,
     TAB @ ''  '' @ NL,
     TAB @ TAB @ ''gl_Position = MVP * vec4(center + faceN * 0.5, 1.0);'' @ NL,
     TAB @ TAB @ ''vertex_color = colorFnormal;'' @ NL,
     TAB @ TAB @ ''EmitVertex();'' @ NL,
     TAB @ TAB @ ''EndPrimitive();'' @ NL,
     TAB @ ''}'' @ NL,
     ''}'' @ NL,
     NL]\<close>

definition sourceGSDemoFrag :: string where
  \<open>sourceGSDemoFrag = concat
    [NL,
     ''#version {{.Version}}'' @ NL,
     NL,
     ''in vec4 vertex_color;'' @ NL,
     ''out vec4 Out_Color;'' @ NL,
     NL,
     ''void main() {'' @ NL,
     TAB @ ''Out_Color = vertex_color;'' @ NL,
     ''}'' @ NL,
     NL]\<close>
definition help_text :: string where
  "help_text = ''Wireframe, vertex and face normals generated by Geometry Shader''"

definition newNormalsMaterial :: "world \<Rightarrow> ref \<times> world" where
  "newNormalsMaterial w0 =
     (let (m, w) = alloc w0;
          w = call (Material_Init m) w;
          w = call (SetShader m ''progGSDemo'') w;
          w = call (Uniform_Init m ShowWireframe ''ShowWireframe'') w;
          w = call (Uniform_Init m ShowVnormal ''ShowVnormal'') w;
          w = call (Uniform_Init m ShowFnormal ''ShowFnormal'') w;
          w = call (Uniform_Set m ShowWireframe 1) w;
          w = call (Uniform_Set m ShowVnormal 1) w;
          w = call (Uniform_Set m ShowFnormal 1) w
      in (m, w))"

definition NormalsMaterial_RenderSetup :: "ref \<Rightarrow> ref \<Rightarrow> world \<Rightarrow> world" where
  "NormalsMaterial_RenderSetup m gs w0 =
     (let w = call (Material_RenderSetup m gs) w0;
          w = call (Uniform_Transfer m ShowWireframe gs) w;
          w = call (Uniform_Transfer m ShowVnormal gs) w;
          w = call (Uniform_Transfer m ShowFnormal gs) w
      in w)"

text \<open>
  \<open>math32_Pi\<close> is the engine's constant \<open>math32.Pi\<close>, whose declaration is not among
  the sources: it is a parameter.  \<open>SetValue\<close> returns its receiver.
\<close>

definition ShaderGeometry_Initialize ::
  "rat \<Rightarrow> Context \<Rightarrow> ShaderGeometry \<Rightarrow> world \<Rightarrow> ShaderGeometry \<times> world" where
  "ShaderGeometry_Initialize math32_Pi cx t0 w0 =
     (let (label1, w) = new (gui_NewLabel help_text) w0;
          w = call (SetFontSize label1 16) w;
          w = call (SetPosition2 label1 10 10) w;
          w = call (Add (Gui cx) label1) w;
          (dir1, w) = new (light_NewDirectional (math32_NewColor 1 1 1) 0.6) w;
          w = call (SetPosition dir1 0 0 100) w;
          w = call (Add (Scene cx) dir1) w;
          (axis, w) = new (graphic_NewAxisHelper 1) w;
          w = call (Add (Scene cx) axis) w;
          w = call (AddShader (Renderer cx) ''shaderGSDemoVertex'' sourceGSDemoVertex) w;
          w = call (AddShader (Renderer cx) ''shaderGSDemoGeometry'' sourceGSDemoGeometry) w;
          w = call (AddShader (Renderer cx) ''shaderGSDemoFrag'' sourceGSDemoFrag) w;
          w = call (AddProgram (Renderer cx) ''progGSDemo''
                      ''shaderGSDemoVertex'' ''shaderGSDemoFrag'' ''shaderGSDemoGeometry'') w;
          (mat, w) = newNormalsMaterial w;
          (planeGeom, w) = new (geometry_NewPlane 1 1 1 1) w;
          w = call (Incref mat) w;
          (plane1, w) = new (graphic_NewMesh planeGeom (Some mat)) w;
          t = t0\<lparr>plane := Some plane1\<rparr>;
          w = call (SetPosition plane1 (- 2.2) 0 0) w;
          w = call (Add (Scene cx) plane1) w;
          (boxGeom, w) = new (geometry_NewBox 1 1 1 1 1 1) w;
          w = call (Incref mat) w;
          (box1, w) = new (graphic_NewMesh boxGeom (Some mat)) w;
          t = t\<lparr>box := Some box1\<rparr>;
          w = call (SetPosition box1 0 0 0) w;
          w = call (Add (Scene cx) box1) w;
          (sphereGeom, w) = new (geometry_NewSphere 0.8 4 4 0 (math32_Pi * 2) 0 math32_Pi) w;
          w = call (Incref mat) w;
          (sphere1, w) = new (graphic_NewMesh sphereGeom (Some mat)) w;
          t = t\<lparr>sphere := Some sphere1\<rparr>;
          w = call (SetPosition sphere1 2.2 0 0) w;
          w = call (Add (Scene cx) sphere1) w
      in case Control cx of
           None \<Rightarrow> (t, w)
         | Some control \<Rightarrow>
            (let t = t\<lparr>showWireframe := 1\<rparr>;
                 t = t\<lparr>showVnormal := 1\<rparr>;
                 t = t\<lparr>showFnormal := 1\<rparr>;
                 t = t\<lparr>rotate_flag := True\<rparr>;
                 (g1, w) = new (AddGroup control ''Show'') w;
                 (cb0, w) = new (AddCheckBox g1 ''Rotate'') w;
                 w = call (SetValue cb0 True) w;
                 w = call (Subscribe cb0 gui_OnChange onChange_Rotate) w;
                 (cb1, w) = new (AddCheckBox g1 ''Wireframe'') w;
                 w = call (SetValue cb1 True) w;
                 w = call (Subscribe cb1 gui_OnChange (onChange_Wireframe mat)) w;
                 (cb2, w) = new (AddCheckBox g1 ''Vertex normals'') w;
                 w = call (SetValue cb2 True) w;
                 w = call (Subscribe cb2 gui_OnChange (onChange_Vnormal mat)) w;
                 (cb3, w) = new (AddCheckBox g1 ''Face normals'') w;
                 w = call (SetValue cb3 True) w;
                 w = call (Subscribe cb3 gui_OnChange (onChange_Fnormal mat)) w
             in (t, w)))"

text \<open>
  Running a subscribed closure.  Its two arguments, the event name and the event, are
  not read by any of the four bodies.
\<close>

fun invoke ::
  "handler \<Rightarrow> evname \<Rightarrow> 'e \<Rightarrow> ShaderGeometry \<Rightarrow> world \<Rightarrow> ShaderGeometry \<times> world" where
  "invoke onChange_Rotate evname ev t w = (t\<lparr>rotate_flag := \<not> rotate_flag t\<rparr>, w)"
| "invoke (onChange_Wireframe mat) evname ev t w =
     (let t = (if showWireframe t = 0 then t\<lparr>showWireframe := 1\<rparr>
               else t\<lparr>showWireframe := 0\<rparr>)
      in (t, call (Uniform_Set mat ShowWireframe (showWireframe t)) w))"
| "invoke (onChange_Vnormal mat) evname ev t w =
     (let t = (if showVnormal t = 0 then t\<lparr>showVnormal := 1\<rparr>
               else t\<lparr>showVnormal := 0\<rparr>)
      in (t, call (Uniform_Set mat ShowVnormal (showVnormal t)) w))"
| "invoke (onChange_Fnormal mat) evname ev t w =
     (let t = (if showFnormal t = 0 then t\<lparr>showFnormal := 1\<rparr>
               else t\<lparr>showFnormal := 0\<rparr>)
      in (t, call (Uniform_Set mat ShowFnormal (showFnormal t)) w))"

text \<open>
  \<open>Render\<close> calls a method on each mesh pointer; on a nil pointer that panics, after
  the calls made before it.
\<close>

definition ShaderGeometry_Render ::
  "Context \<Rightarrow> ShaderGeometry \<Rightarrow> world \<Rightarrow> (panic + ShaderGeometry) \<times> world" where
  "ShaderGeometry_Render cx t w0 =
     (if rotate_flag t then
        (case plane t of
           None \<Rightarrow> (Inl NilPointerDereference, w0)
         | Some p \<Rightarrow>
            (let w = call (AddRotationX p 0.01) w0 in
             case box t of
               None \<Rightarrow> (Inl NilPointerDereference, w)
             | Some b \<Rightarrow>
                (let w = call (AddRotationY b 0.01) w in
                 case sphere t of
                   None \<Rightarrow> (Inl NilPointerDereference, w)
                 | Some s \<Rightarrow> (Inr t, call (AddRotationZ s 0.005) w))))
      else (Inr t, w0))"

text \<open>
  \<open>TestMap["shader.geometry"] = &ShaderGeometry{}\<close>.  The table holds values of the
  host's demo interface; \<open>ITest\<close> is that interface as far as this file implements it,
  with its two methods.
\<close>

datatype ITest = ITest_ShaderGeometry ShaderGeometry

fun ITest_Initialize :: "rat \<Rightarrow> ITest \<Rightarrow> Context \<Rightarrow> world \<Rightarrow> ITest \<times> world" where
  "ITest_Initialize math32_Pi (ITest_ShaderGeometry t) cx w =
     (let (t, w) = ShaderGeometry_Initialize math32_Pi cx t w in (ITest_ShaderGeometry t, w))"

fun ITest_Render :: "ITest \<Rightarrow> Context \<Rightarrow> world \<Rightarrow> (panic + ITest) \<times> world" where
  "ITest_Render (ITest_ShaderGeometry t) cx w =
     (case ShaderGeometry_Render cx t w of
        (Inl p, w) \<Rightarrow> (Inl p, w)
      | (Inr t, w) \<Rightarrow> (Inr (ITest_ShaderGeometry t), w))"

definition init_shader_geometry :: "(string \<rightharpoonup> ITest) \<Rightarrow> (string \<rightharpoonup> ITest)" where
  "init_shader_geometry TestMap =
     TestMap(''shader.geometry'' \<mapsto> ITest_ShaderGeometry ShaderGeometry_zero)"

section \<open>The skybox demo\<close>

text \<open>
  The host's \<open>App\<close>, by what its accessors \<open>Scene()\<close>, \<open>DirData()\<close> and \<open>Log()\<close>
  return.
\<close>

record App =
  App_Scene :: ref
  App_DirData :: string
  App_Log :: ref

datatype Skybox = Skybox

definition textures :: "string list" where
  "textures =
     [''sanfrancisco/posx.jpg'',
      ''sanfrancisco/negx.jpg'',
      ''sanfrancisco/posy.jpg'',
      ''sanfrancisco/negy.jpg'',
      ''sanfrancisco/posz.jpg'',
      ''sanfrancisco/negz.jpg'']"

text \<open>The engine's loader returns a texture or an error, never both.\<close>

definition NewTexture2DFromImage :: "string \<Rightarrow> world \<Rightarrow> (err + ref) \<times> world" where
  "NewTexture2DFromImage path w =
     (case image_error w path of
        Some e \<Rightarrow> (Inl e, call (texture_NewTexture2DFromImage path (Inl e)) w)
      | None \<Rightarrow> (let (tex, w) = new (\<lambda>r. texture_NewTexture2DFromImage path (Inr r)) w
                 in (Inr tex, w)))"

text \<open>
  The loop \<open>for i := 0; i < 6; i++\<close> from its \<open>i\<close>-th round on; \<open>i\<close> stays
  between 0 and 6, so it is a \<open>nat\<close>.  The host's \<open>Fatal\<close> logs and aborts: the
  rounds after it do not run.
\<close>

function Skybox_faces :: "App \<Rightarrow> ref \<Rightarrow> nat \<Rightarrow> world \<Rightarrow> (panic + unit) \<times> world" where
  "Skybox_faces a skybox i w0 =
     (if i < 6 then
        (case NewTexture2DFromImage (App_DirData a @ ''/images/'' @ textures ! i) w0 of
           (Inl e, w) \<Rightarrow>
             (Inl LogFatal, call (Fatal (App_Log a) ''Error loading texture: %s'' e) w)
         | (Inr tex, w) \<Rightarrow>
             (let (matFace, w) = new (material_NewStandard (Color 1 1 1)) w;
                  w = call (AddTexture matFace tex) w;
                  w = call (SetSide matFace SideBack) w;
                  w = call (AddGroupMaterial skybox matFace (int i)) w
              in Skybox_faces a skybox (Suc i) w))
      else (Inr (), w0))"
  by pat_completeness auto
termination
  by (relation "measure (\<lambda>(a, skybox, i, w). 6 - i)") auto

declare Skybox_faces.simps [simp del]

definition Skybox_Initialize :: "App \<Rightarrow> Skybox \<Rightarrow> world \<Rightarrow> (panic + Skybox) \<times> world" where
  "Skybox_Initialize a t w0 =
     (let (axis, w) = new (graphic_NewAxisHelper 2) w0;
          w = call (Add (App_Scene a) axis) w;
          (geom, w) = new (geometry_NewBox 50 50 50 2 2 2) w;
          (skybox, w) = new (graphic_NewMesh geom None) w
      in case Skybox_faces a skybox 0 w of
           (Inl p, w) \<Rightarrow> (Inl p, w)
         | (Inr u, w) \<Rightarrow> (Inr t, call (Add (App_Scene a) skybox) w))"

definition Skybox_Render :: "App \<Rightarrow> Skybox \<Rightarrow> world \<Rightarrow> Skybox \<times> world" where
  "Skybox_Render a t w = (t, w)"

text \<open>\<open>demos.Map["skybox.sanfrancisco"] = &Skybox{}\<close>\<close>

datatype IDemo = IDemo_Skybox Skybox

fun IDemo_Initialize :: "IDemo \<Rightarrow> App \<Rightarrow> world \<Rightarrow> (panic + IDemo) \<times> world" where
  "IDemo_Initialize (IDemo_Skybox t) a w =
     (case Skybox_Initialize a t w of
        (Inl p, w) \<Rightarrow> (Inl p, w)
      | (Inr t, w) \<Rightarrow> (Inr (IDemo_Skybox t), w))"

fun IDemo_Render :: "IDemo \<Rightarrow> App \<Rightarrow> world \<Rightarrow> IDemo \<times> world" where
  "IDemo_Render (IDemo_Skybox t) a w =
     (let (t, w) = Skybox_Render a t w in (IDemo_Skybox t, w))"

definition init_skybox :: "(string \<rightharpoonup> IDemo) \<Rightarrow> (string \<rightharpoonup> IDemo)" where
  "init_skybox Map = Map(''skybox.sanfrancisco'' \<mapsto> IDemo_Skybox Skybox)"

section \<open>The logs of \<open>ShaderGeometry.Initialize\<close>, written out\<close>

text \<open>
  The engine calls of \<open>Initialize\<close> up to its test of \<open>ctx.Control\<close>, and those after
  it, with \<open>n\<close> the first fresh reference.  That \<open>Initialize\<close> makes exactly these
  calls is proved below.
\<close>

definition scene_calls :: "rat \<Rightarrow> Context \<Rightarrow> ref \<Rightarrow> call list" where
  "scene_calls math32_Pi cx n =
     [gui_NewLabel help_text n,
      SetFontSize n 16,
      SetPosition2 n 10 10,
      Add (Gui cx) n,
      light_NewDirectional (Color 1 1 1) 0.6 (n + 1),
      SetPosition (n + 1) 0 0 100,
      Add (Scene cx) (n + 1),
      graphic_NewAxisHelper 1 (n + 2),
      Add (Scene cx) (n + 2),
      AddShader (Renderer cx) ''shaderGSDemoVertex'' sourceGSDemoVertex,
      AddShader (Renderer cx) ''shaderGSDemoGeometry'' sourceGSDemoGeometry,
      AddShader (Renderer cx) ''shaderGSDemoFrag'' sourceGSDemoFrag,
      AddProgram (Renderer cx) ''progGSDemo''
        ''shaderGSDemoVertex'' ''shaderGSDemoFrag'' ''shaderGSDemoGeometry'',
      Material_Init (n + 3),
      SetShader (n + 3) ''progGSDemo'',
      Uniform_Init (n + 3) ShowWireframe ''ShowWireframe'',
      Uniform_Init (n + 3) ShowVnormal ''ShowVnormal'',
      Uniform_Init (n + 3) ShowFnormal ''ShowFnormal'',
      Uniform_Set (n + 3) ShowWireframe 1,
      Uniform_Set (n + 3) ShowVnormal 1,
      Uniform_Set (n + 3) ShowFnormal 1,
      geometry_NewPlane 1 1 1 1 (n + 4),
      Incref (n + 3),
      graphic_NewMesh (n + 4) (Some (n + 3)) (n + 5),
      SetPosition (n + 5) (- 2.2) 0 0,
      Add (Scene cx) (n + 5),
      geometry_NewBox 1 1 1 1 1 1 (n + 6),
      Incref (n + 3),
      graphic_NewMesh (n + 6) (Some (n + 3)) (n + 7),
      SetPosition (n + 7) 0 0 0,
      Add (Scene cx) (n + 7),
      geometry_NewSphere 0.8 4 4 0 (math32_Pi * 2) 0 math32_Pi (n + 8),
      Incref (n + 3),
      graphic_NewMesh (n + 8) (Some (n + 3)) (n + 9),
      SetPosition (n + 9) 2.2 0 0,
      Add (Scene cx) (n + 9)]"

definition control_calls :: "ref \<Rightarrow> ref \<Rightarrow> call list" where
  "control_calls control n =
     [AddGroup control ''Show'' (n + 10),
      AddCheckBox (n + 10) ''Rotate'' (n + 11),
      SetValue (n + 11) True,
      Subscribe (n + 11) gui_OnChange onChange_Rotate,
      AddCheckBox (n + 10) ''Wireframe'' (n + 12),
      SetValue (n + 12) True,
      Subscribe (n + 12) gui_OnChange (onChange_Wireframe (n + 3)),
      AddCheckBox (n + 10) ''Vertex normals'' (n + 13),
      SetValue (n + 13) True,
      Subscribe (n + 13) gui_OnChange (onChange_Vnormal (n + 3)),
      AddCheckBox (n + 10) ''Face normals'' (n + 14),
      SetValue (n + 14) True,
      Subscribe (n + 14) gui_OnChange (onChange_Fnormal (n + 3))]"

section \<open>Reading a log of engine calls\<close>

definition shaders_added :: "call list \<Rightarrow> (ref \<times> string \<times> string) list" where
  "shaders_added cs =
     List.map_filter (\<lambda>c. case c of AddShader r name src \<Rightarrow> Some (r, name, src) | _ \<Rightarrow> None) cs"

definition programs_added :: "call list \<Rightarrow> (ref \<times> string \<times> string \<times> string \<times> string) list" where
  "programs_added cs =
     List.map_filter
       (\<lambda>c. case c of AddProgram r name v f g \<Rightarrow> Some (r, name, v, f, g) | _ \<Rightarrow> None) cs"

text \<open>The material of every mesh constructed, in order.\<close>

definition mesh_materials :: "call list \<Rightarrow> ref option list" where
  "mesh_materials cs =
     List.map_filter (\<lambda>c. case c of graphic_NewMesh g m r \<Rightarrow> Some m | _ \<Rightarrow> None) cs"

text \<open>The values written to uniform \<open>u\<close> of material \<open>m\<close>, and the last of them.\<close>

definition uniform_writes :: "call list \<Rightarrow> ref \<Rightarrow> Uniform \<Rightarrow> 32 word list" where
  "uniform_writes cs m u =
     List.map_filter
       (\<lambda>c. case c of Uniform_Set m' u' v \<Rightarrow> if m' = m \<and> u' = u then Some v else None
                     | _ \<Rightarrow> None) cs"

definition uniform_value :: "call list \<Rightarrow> ref \<Rightarrow> Uniform \<Rightarrow> 32 word option" where
  "uniform_value cs m u =
     (if uniform_writes cs m u = [] then None else Some (last (uniform_writes cs m u)))"

definition checkboxes :: "call list \<Rightarrow> (ref \<times> string) list" where
  "checkboxes cs =
     List.map_filter (\<lambda>c. case c of AddCheckBox g label cb \<Rightarrow> Some (cb, label) | _ \<Rightarrow> None) cs"

definition subscriptions :: "call list \<Rightarrow> (ref \<times> evname \<times> handler) list" where
  "subscriptions cs =
     List.map_filter (\<lambda>c. case c of Subscribe cb e h \<Rightarrow> Some (cb, e, h) | _ \<Rightarrow> None) cs"

text \<open>Each checkbox label with the closure subscribed to that checkbox's \<open>OnChange\<close>.\<close>

definition wired :: "call list \<Rightarrow> (string \<times> handler) list" where
  "wired cs =
     concat (map (\<lambda>(cb, label).
        List.map_filter (\<lambda>(cb', e, h). if cb' = cb \<and> e = gui_OnChange then Some (label, h) else None)
          (subscriptions cs)) (checkboxes cs))"

datatype axis = AxisX | AxisY | AxisZ

definition rotation_increments :: "call list \<Rightarrow> (ref \<times> axis \<times> rat) list" where
  "rotation_increments cs =
     List.map_filter
       (\<lambda>c. case c of AddRotationX r x \<Rightarrow> Some (r, AxisX, x)
                     | AddRotationY r x \<Rightarrow> Some (r, AxisY, x)
                     | AddRotationZ r x \<Rightarrow> Some (r, AxisZ, x)
                     | _ \<Rightarrow> None) cs"

section \<open>The host's lifecycle\<close>

text \<open>The host runs subscribed closures when a checkbox changes, one after the other.\<close>

fun invoke_all ::
  "(handler \<times> evname \<times> 'e) list \<Rightarrow> ShaderGeometry \<Rightarrow> world \<Rightarrow> ShaderGeometry \<times> world" where
  "invoke_all [] t w = (t, w)"
| "invoke_all ((h, evname, ev) # es) t w =
     (let (t, w) = invoke h evname ev t w in invoke_all es t w)"

text \<open>The host calls \<open>Render\<close> once per frame; a panic ends the run.\<close>

fun render_frames ::
  "Context list \<Rightarrow> ShaderGeometry \<Rightarrow> world \<Rightarrow> (panic + ShaderGeometry) \<times> world" where
  "render_frames [] t w = (Inr t, w)"
| "render_frames (cx # cxs) t w =
     (case ShaderGeometry_Render cx t w of
        (Inl p, w) \<Rightarrow> (Inl p, w)
      | (Inr t, w) \<Rightarrow> render_frames cxs t w)"

fun Skybox_frames :: "App list \<Rightarrow> Skybox \<Rightarrow> world \<Rightarrow> Skybox \<times> world" where
  "Skybox_frames [] t w = (t, w)"
| "Skybox_frames (a # as) t w = (let (t, w) = Skybox_Render a t w in Skybox_frames as t w)"

text \<open>
  The show fields and the uniforms of material \<open>mat\<close> agree: each field is 0 or 1 and is
  the value last written to its uniform.
\<close>

definition toggles_consistent :: "ref \<Rightarrow> ShaderGeometry \<Rightarrow> world \<Rightarrow> bool" where
  "toggles_consistent mat t w =
     ((showWireframe t = 0 \<or> showWireframe t = 1) \<and>
      (showVnormal t = 0 \<or> showVnormal t = 1) \<and>
      (showFnormal t = 0 \<or> showFnormal t = 1) \<and>
      uniform_value (calls w) mat ShowWireframe = Some (showWireframe t) \<and>
      uniform_value (calls w) mat ShowVnormal = Some (showVnormal t) \<and>
      uniform_value (calls w) mat ShowFnormal = Some (showFnormal t))"

section \<open>Concrete inputs\<close>

definition example_world :: world where
  "example_world = \<lparr>calls = [], next_ref = 4, image_error = (\<lambda>p. None)\<rparr>"

definition example_Context :: Context where
  "example_Context = \<lparr>Gui = 0, Scene = 1, Renderer = 2, Control = Some 3, FrameDelta = 1 / 60\<rparr>"

definition example_App :: App where
  "example_App = \<lparr>App_Scene = 1, App_DirData = ''data'', App_Log = 0\<rparr>"

section \<open>Reading the skybox's log\<close>

text \<open>The path of the \<open>i\<close>-th face texture, as the loop builds it.\<close>

definition face_path :: "App \<Rightarrow> nat \<Rightarrow> string" where
  "face_path a i = App_DirData a @ ''/images/'' @ textures ! i"

definition is_load :: "string \<Rightarrow> call \<Rightarrow> bool" where
  "is_load p c = (case c of texture_NewTexture2DFromImage q r \<Rightarrow> q = p | _ \<Rightarrow> False)"

definition is_failed_load :: "string \<Rightarrow> call \<Rightarrow> bool" where
  "is_failed_load p c =
     (case c of texture_NewTexture2DFromImage q r \<Rightarrow> q = p \<and> isl r | _ \<Rightarrow> False)"

definition is_fatal :: "call \<Rightarrow> bool" where
  "is_fatal c = (case c of Fatal l f e \<Rightarrow> True | _ \<Rightarrow> False)"

text \<open>The image at path \<open>p\<close> was loaded; it was loaded and the loader returned an error.\<close>

definition loaded :: "string \<Rightarrow> call list \<Rightarrow> bool" where
  "loaded p cs = list_ex (is_load p) cs"

definition load_failed :: "string \<Rightarrow> call list \<Rightarrow> bool" where
  "load_failed p cs = list_ex (is_failed_load p) cs"

text \<open>A load of the image at path \<open>p\<close> is followed at once by a \<open>Fatal\<close> call.\<close>

fun fatal_after :: "string \<Rightarrow> call list \<Rightarrow> bool" where
  "fatal_after p (c # d # cs) = ((is_load p c \<and> is_fatal d) \<or> fatal_after p (d # cs))"
| "fatal_after p cs = False"

definition fatals :: "call list \<Rightarrow> call list" where
  "fatals cs = filter is_fatal cs"

definition boxes :: "call list \<Rightarrow> (rat \<times> rat \<times> rat \<times> int \<times> int \<times> int \<times> ref) list" where
  "boxes cs =
     List.map_filter
       (\<lambda>c. case c of geometry_NewBox x y z sx sy sz r \<Rightarrow> Some (x, y, z, sx, sy, sz, r)
                     | _ \<Rightarrow> None) cs"

definition meshes :: "call list \<Rightarrow> (ref \<times> ref option \<times> ref) list" where
  "meshes cs =
     List.map_filter (\<lambda>c. case c of graphic_NewMesh g m r \<Rightarrow> Some (g, m, r) | _ \<Rightarrow> None) cs"

definition standard_materials :: "call list \<Rightarrow> (Color \<times> ref) list" where
  "standard_materials cs =
     List.map_filter (\<lambda>c. case c of material_NewStandard col r \<Rightarrow> Some (col, r) | _ \<Rightarrow> None) cs"

definition group_materials :: "call list \<Rightarrow> (ref \<times> ref \<times> int) list" where
  "group_materials cs =
     List.map_filter
       (\<lambda>c. case c of AddGroupMaterial mesh m g \<Rightarrow> Some (mesh, m, g) | _ \<Rightarrow> None) cs"

definition textures_of :: "call list \<Rightarrow> ref \<Rightarrow> ref list" where
  "textures_of cs m =
     List.map_filter
       (\<lambda>c. case c of AddTexture m' tex \<Rightarrow> if m' = m then Some tex else None | _ \<Rightarrow> None) cs"

definition sides_of :: "call list \<Rightarrow> ref \<Rightarrow> Side list" where
  "sides_of cs m =
     List.map_filter
       (\<lambda>c. case c of SetSide m' s \<Rightarrow> if m' = m then Some s else None | _ \<Rightarrow> None) cs"

definition loads :: "call list \<Rightarrow> (string \<times> (err + ref)) list" where
  "loads cs =
     List.map_filter
       (\<lambda>c. case c of texture_NewTexture2DFromImage p r \<Rightarrow> Some (p, r) | _ \<Rightarrow> None) cs"

text \<open>The engine calls of one round of the loop in which the image loads.\<close>

definition face_calls :: "App \<Rightarrow> ref \<Rightarrow> nat \<Rightarrow> ref \<Rightarrow> call list" where
  "face_calls a skybox i n =
     [texture_NewTexture2DFromImage (face_path a i) (Inr n),
      material_NewStandard (Color 1 1 1) (n + 1),
      AddTexture (n + 1) n,
      SetSide (n + 1) SideBack,
      AddGroupMaterial skybox (n + 1) (int i)]"

text \<open>The demo name of the README: category plus "." plus name.\<close>

definition demo_name :: "string \<Rightarrow> string \<Rightarrow> string" where
  "demo_name category name = category @ ''.'' @ name"

text \<open>The engine calls of \<open>Skybox.Initialize\<close> before its loop.\<close>

definition skybox_start :: "App \<Rightarrow> ref \<Rightarrow> call list" where
  "skybox_start a n =
     [graphic_NewAxisHelper 2 n,
      Add (App_Scene a) n,
      geometry_NewBox 50 50 50 2 2 2 (n + 1),
      graphic_NewMesh (n + 1) None (n + 2)]"

text \<open>A world in which the second face texture, negx.jpg, is missing.\<close>

definition example_world_missing :: world where
  "example_world_missing =
     \<lparr>calls = [], next_ref = 4,
      image_error = (\<lambda>p. if p = ''data/images/sanfrancisco/negx.jpg''
                           then Some ''no such file or directory'' else None)\<rparr>"

lemma Initialize_without_Control:
  "Control cx = None \<Longrightarrow>
   ShaderGeometry_Initialize math32_Pi cx t w =
     (t\<lparr>plane := Some (next_ref w + 5), box := Some (next_ref w + 7),
        sphere := Some (next_ref w + 9)\<rparr>,
      w\<lparr>calls := calls w @ scene_calls math32_Pi cx (next_ref w),
        next_ref := next_ref w + 10\<rparr>)"
  by (simp add: ShaderGeometry_Initialize_def newNormalsMaterial_def new_def call_def
      alloc_def math32_NewColor_def scene_calls_def Let_def)

lemma Initialize_with_Control:
  "Control cx = Some control \<Longrightarrow>
   ShaderGeometry_Initialize math32_Pi cx t w =
     (t\<lparr>plane := Some (next_ref w + 5), box := Some (next_ref w + 7),
        sphere := Some (next_ref w + 9),
        showWireframe := 1, showVnormal := 1, showFnormal := 1, rotate_flag := True\<rparr>,
      w\<lparr>calls := calls w @ scene_calls math32_Pi cx (next_ref w)
                 @ control_calls control (next_ref w),
        next_ref := next_ref w + 15\<rparr>)"
  by (simp add: ShaderGeometry_Initialize_def newNormalsMaterial_def new_def call_def
      alloc_def math32_NewColor_def scene_calls_def control_calls_def Let_def)

lemma emitted_append: "calls w1 = calls w0 @ cs \<Longrightarrow> emitted w0 w1 = cs"
  by (simp add: emitted_def)
lemma map_filter_append: "List.map_filter f (xs @ ys) = List.map_filter f xs @ List.map_filter f ys"
  by (simp add: List.map_filter_def)

lemma emitted_Initialize_None:
  "Control cx = None \<Longrightarrow>
   emitted w (snd (ShaderGeometry_Initialize math32_Pi cx t w)) = scene_calls math32_Pi cx (next_ref w)"
  by (simp add: Initialize_without_Control emitted_def)

lemma emitted_Initialize_Some:
  "Control cx = Some control \<Longrightarrow>
   emitted w (snd (ShaderGeometry_Initialize math32_Pi cx t w)) =
     scene_calls math32_Pi cx (next_ref w) @ control_calls control (next_ref w)"
  by (simp add: Initialize_with_Control emitted_def)

lemma shaders_scene: "shaders_added (scene_calls math32_Pi cx n) =
     [(Renderer cx, ''shaderGSDemoVertex'', sourceGSDemoVertex),
      (Renderer cx, ''shaderGSDemoGeometry'', sourceGSDemoGeometry),
      (Renderer cx, ''shaderGSDemoFrag'', sourceGSDemoFrag)]"
  by (simp add: shaders_added_def scene_calls_def)

lemma shaders_control: "shaders_added (control_calls control n) = []"
  by (simp add: shaders_added_def control_calls_def)

lemma programs_scene: "programs_added (scene_calls math32_Pi cx n) =
     [(Renderer cx, ''progGSDemo'', ''shaderGSDemoVertex'', ''shaderGSDemoFrag'',
       ''shaderGSDemoGeometry'')]"
  by (simp add: programs_added_def scene_calls_def)

lemma programs_control: "programs_added (control_calls control n) = []"
  by (simp add: programs_added_def control_calls_def)

lemma mesh_materials_scene:
  "mesh_materials (scene_calls math32_Pi cx n) = [Some (n + 3), Some (n + 3), Some (n + 3)]"
  by (simp add: mesh_materials_def scene_calls_def)

lemma mesh_materials_control: "mesh_materials (control_calls control n) = []"
  by (simp add: mesh_materials_def control_calls_def)

lemma subscriptions_scene: "subscriptions (scene_calls math32_Pi cx n) = []"
  by (simp add: subscriptions_def scene_calls_def)

lemma checkboxes_scene: "checkboxes (scene_calls math32_Pi cx n) = []"
  by (simp add: checkboxes_def scene_calls_def)

lemma subscriptions_control:
  "subscriptions (control_calls control n) =
     [(n + 11, gui_OnChange, onChange_Rotate),
      (n + 12, gui_OnChange, onChange_Wireframe (n + 3)),
      (n + 13, gui_OnChange, onChange_Vnormal (n + 3)),
      (n + 14, gui_OnChange, onChange_Fnormal (n + 3))]"
  by (simp add: subscriptions_def control_calls_def)

lemma checkboxes_control:
  "checkboxes (control_calls control n) =
     [(n + 11, ''Rotate''), (n + 12, ''Wireframe''),
      (n + 13, ''Vertex normals''), (n + 14, ''Face normals'')]"
  by (simp add: checkboxes_def control_calls_def)

lemma subscriptions_append: "subscriptions (cs @ ds) = subscriptions cs @ subscriptions ds"
  by (simp add: subscriptions_def map_filter_append)

lemma checkboxes_append: "checkboxes (cs @ ds) = checkboxes cs @ checkboxes ds"
  by (simp add: checkboxes_def map_filter_append)

lemma mesh_materials_append: "mesh_materials (cs @ ds) = mesh_materials cs @ mesh_materials ds"
  by (simp add: mesh_materials_def map_filter_append)

lemma wired_Initialize:
  "wired (scene_calls math32_Pi cx n @ control_calls control n) =
     [(''Rotate'', onChange_Rotate),
      (''Wireframe'', onChange_Wireframe (n + 3)),
      (''Vertex normals'', onChange_Vnormal (n + 3)),
      (''Face normals'', onChange_Fnormal (n + 3))]"
  by (simp add: wired_def subscriptions_append checkboxes_append subscriptions_scene
      checkboxes_scene subscriptions_control checkboxes_control)

lemma uniform_writes_append:
  "uniform_writes (cs @ ds) m u = uniform_writes cs m u @ uniform_writes ds m u"
  by (simp add: uniform_writes_def map_filter_append)

lemma uniform_value_Set:
  "uniform_value (cs @ [Uniform_Set m u v]) m' u' =
     (if m = m' \<and> u = u' then Some v else uniform_value cs m' u')"
  by (simp add: uniform_value_def uniform_writes_append)
     (simp add: uniform_writes_def)

lemma uniform_writes_scene:
  "uniform_writes (scene_calls math32_Pi cx n) (n + 3) u = [1]"
  by (cases u) (simp_all add: uniform_writes_def scene_calls_def)

lemma uniform_writes_control: "uniform_writes (control_calls control n) m u = []"
  by (simp add: uniform_writes_def control_calls_def)

lemma uniform_value_Initialize:
  "uniform_value (cs @ scene_calls math32_Pi cx n) (n + 3) u = Some 1"
  "uniform_value (cs @ scene_calls math32_Pi cx n @ control_calls control n) (n + 3) u = Some 1"
  by (simp_all add: uniform_value_def uniform_writes_append uniform_writes_scene
      uniform_writes_control)

lemma emitted_call: "emitted w (call c w) = [c]"
  by (simp add: emitted_def call_def)

lemma emitted_same: "emitted w w = []"
  by (simp add: emitted_def)

lemma invoke_consistent:
  assumes "toggles_consistent mat t w"
    and "h \<in> {onChange_Rotate, onChange_Wireframe mat, onChange_Vnormal mat, onChange_Fnormal mat}"
    and "invoke h evname ev t w = (t', w')"
  shows "toggles_consistent mat t' w'"
  using assms
  by (auto simp add: toggles_consistent_def call_def uniform_value_Set Let_def)

lemma invoke_all_consistent:
  assumes "toggles_consistent mat t w"
    and "fst ` set evs \<subseteq>
      {onChange_Rotate, onChange_Wireframe mat, onChange_Vnormal mat, onChange_Fnormal mat}"
    and "invoke_all evs t w = (t', w')"
  shows "toggles_consistent mat t' w'"
  using assms
proof (induction evs arbitrary: t w)
  case Nil
  then show ?case by simp
next
  case (Cons e evs)
  obtain h evname ev where e: "e = (h, evname, ev)"
    by (cases e)
  obtain t1 w1 where s: "invoke h evname ev t w = (t1, w1)"
    by (cases "invoke h evname ev t w")
  from Cons.prems(2) e have h: "h \<in>
      {onChange_Rotate, onChange_Wireframe mat, onChange_Vnormal mat, onChange_Fnormal mat}"
    by simp
  have c1: "toggles_consistent mat t1 w1"
    using invoke_consistent [OF Cons.prems(1) h s] .
  from Cons.prems(2) have sub: "fst ` set evs \<subseteq>
      {onChange_Rotate, onChange_Wireframe mat, onChange_Vnormal mat, onChange_Fnormal mat}"
    by simp
  from Cons.prems(3) e s have "invoke_all evs t1 w1 = (t', w')"
    by simp
  with Cons.IH [OF c1 sub] show ?case .
qed

lemma uniform_value_Set2:
  "uniform_value (cs @ [c, Uniform_Set m u v]) m' u' =
     (if m = m' \<and> u = u' then Some v else uniform_value (cs @ [c]) m' u')"
  using uniform_value_Set [of "cs @ [c]" m u v m' u'] by simp

lemma invoke_twice:
  assumes "toggles_consistent mat t w"
    and "h \<in> {onChange_Rotate, onChange_Wireframe mat, onChange_Vnormal mat, onChange_Fnormal mat}"
    and "invoke h evname ev t w = (t1, w1)"
    and "invoke h evname ev t1 w1 = (t2, w2)"
  shows "t2 = t \<and> (\<forall>u. uniform_value (calls w2) mat u = uniform_value (calls w) mat u)"
proof -
  from assms(2) consider
      (Rotate) "h = onChange_Rotate"
    | (Wireframe) "h = onChange_Wireframe mat"
    | (Vnormal) "h = onChange_Vnormal mat"
    | (Fnormal) "h = onChange_Fnormal mat"
    by blast
  then show ?thesis
  proof cases
    case Rotate
    with assms(3,4) show ?thesis
      by auto
  next
    case Wireframe
    with assms(1,3,4) show ?thesis
      by (auto simp add: toggles_consistent_def call_def uniform_value_Set uniform_value_Set2
          Let_def)
  next
    case Vnormal
    with assms(1,3,4) show ?thesis
      by (auto simp add: toggles_consistent_def call_def uniform_value_Set uniform_value_Set2
          Let_def)
  next
    case Fnormal
    with assms(1,3,4) show ?thesis
      by (auto simp add: toggles_consistent_def call_def uniform_value_Set uniform_value_Set2
          Let_def)
  qed
qed

lemma invoke_even:
  assumes "toggles_consistent mat t w"
    and "h \<in> {onChange_Rotate, onChange_Wireframe mat, onChange_Vnormal mat, onChange_Fnormal mat}"
    and "invoke_all (replicate (2 * k) (h, evname, ev)) t w = (t', w')"
  shows "t' = t \<and> (\<forall>u. uniform_value (calls w') mat u = uniform_value (calls w) mat u)"
  using assms
proof (induction k arbitrary: t w)
  case 0
  then show ?case by simp
next
  case (Suc k)
  obtain t1 w1 where s1: "invoke h evname ev t w = (t1, w1)"
    by (cases "invoke h evname ev t w")
  obtain t2 w2 where s2: "invoke h evname ev t1 w1 = (t2, w2)"
    by (cases "invoke h evname ev t1 w1")
  have c1: "toggles_consistent mat t1 w1"
    using invoke_consistent [OF Suc.prems(1) Suc.prems(2) s1] .
  have c2: "toggles_consistent mat t2 w2"
    using invoke_consistent [OF c1 Suc.prems(2) s2] .
  from Suc.prems(3) s1 s2 have r: "invoke_all (replicate (2 * k) (h, evname, ev)) t2 w2 = (t', w')"
    by simp
  from Suc.IH [OF c2 Suc.prems(2) r] invoke_twice [OF Suc.prems(1) Suc.prems(2) s1 s2]
  show ?case
    by simp
qed

lemma Initialize_consistent:
  assumes "Control cx = Some control"
    and "ShaderGeometry_Initialize math32_Pi cx t0 w0 = (t1, w1)"
  shows "toggles_consistent (next_ref w0 + 3) t1 w1"
  using assms
  by (auto simp add: Initialize_with_Control toggles_consistent_def uniform_value_Initialize)

lemma render_frames_still: "\<not> rotate_flag t \<Longrightarrow> render_frames cxs t w = (Inr t, w)"
  by (induction cxs) (simp_all add: ShaderGeometry_Render_def)

lemma faces_done: "\<not> i < 6 \<Longrightarrow> Skybox_faces a s i w = (Inr (), w)"
  by (subst Skybox_faces.simps) simp

lemma faces_abort:
  "i < 6 \<Longrightarrow> image_error w (face_path a i) = Some e \<Longrightarrow>
   Skybox_faces a s i w =
     (Inl LogFatal,
      w\<lparr>calls := calls w @
         [texture_NewTexture2DFromImage (face_path a i) (Inl e),
          Fatal (App_Log a) ''Error loading texture: %s'' e]\<rparr>)"
  by (subst Skybox_faces.simps)
     (simp add: NewTexture2DFromImage_def face_path_def call_def)

lemma faces_step:
  "i < 6 \<Longrightarrow> image_error w (face_path a i) = None \<Longrightarrow>
   Skybox_faces a s i w =
     Skybox_faces a s (Suc i)
       (w\<lparr>calls := calls w @ face_calls a s i (next_ref w), next_ref := next_ref w + 2\<rparr>)"
  apply (subst Skybox_faces.simps)
  apply (simp add: NewTexture2DFromImage_def face_path_def face_calls_def new_def alloc_def
      call_def Let_def)
  apply (rule arg_cong [where f = "Skybox_faces a s (Suc i)"])
  apply simp
  done

lemma face_path_inj: "i < 6 \<Longrightarrow> k < 6 \<Longrightarrow> (face_path a i = face_path a k) = (i = k)"
proof -
  assume "i < 6" "k < 6"
  moreover have "distinct textures" "length textures = 6"
    by (simp_all add: textures_def)
  ultimately show ?thesis
    by (simp add: face_path_def nth_eq_iff_index_eq)
qed


lemma fatal_after_skip: "\<not> is_load p c \<Longrightarrow> fatal_after p (c # cs) = fatal_after p cs"
  by (cases cs) simp_all

lemma fatal_after_snoc: "\<not> is_fatal c \<Longrightarrow> fatal_after p (cs @ [c]) = fatal_after p cs"
  by (induction p cs rule: fatal_after.induct) simp_all

lemma fatal_after_face_calls:
  "fatal_after p (face_calls a s i n @ cs) = fatal_after p cs"
  by (simp add: face_calls_def is_fatal_def is_load_def fatal_after_skip)

lemma loaded_face_calls:
  "loaded p (face_calls a s i n @ cs) = (p = face_path a i \<or> loaded p cs)"
  by (auto simp add: loaded_def face_calls_def is_load_def)

lemma load_failed_face_calls:
  "load_failed p (face_calls a s i n @ cs) = load_failed p cs"
  by (simp add: load_failed_def face_calls_def is_failed_load_def)

lemma fatals_face_calls: "fatals (face_calls a s i n @ cs) = fatals cs"
  by (simp add: fatals_def face_calls_def is_fatal_def)

text \<open>What the loop from round \<open>i\<close> on adds to the log.\<close>

lemma faces_log:
  assumes "i \<le> 6" and "Skybox_faces a s i w = (r, w')"
  shows "\<exists>N. calls w' = calls w @ N \<and> image_error w' = image_error w \<and>
     (\<forall>p. fatal_after p N = load_failed p N) \<and>
     (\<forall>p. load_failed p N = (loaded p N \<and> image_error w p \<noteq> None)) \<and>
     (\<forall>k. i \<le> k \<and> k < 6 \<longrightarrow>
        loaded (face_path a k) N = (\<forall>j. i \<le> j \<and> j < k \<longrightarrow> image_error w (face_path a j) = None)) \<and>
     (\<forall>p. loaded p N \<longrightarrow> (\<exists>k. i \<le> k \<and> k < 6 \<and> p = face_path a k)) \<and>
     (r = Inl LogFatal) = (fatals N \<noteq> []) \<and>
     (r \<noteq> Inl LogFatal \<longrightarrow> r = Inr ()) \<and>
     (N = [] \<or> \<not> is_fatal (hd N))"
  using assms
proof (induction "6 - i" arbitrary: i w)
  case 0
  then have "\<not> i < 6"
    by simp
  with "0.prems"(2) have "r = Inr ()" and "w' = w"
    by (simp_all add: faces_done)
  then show ?case
    using \<open>\<not> i < 6\<close>
    by (intro exI [of _ "[]"]) (auto simp add: loaded_def load_failed_def fatals_def)
next
  case (Suc n)
  then have i: "i < 6"
    by simp
  show ?case
  proof (cases "image_error w (face_path a i)")
    case (Some e)
    let ?N = "[texture_NewTexture2DFromImage (face_path a i) (Inl e),
      Fatal (App_Log a) ''Error loading texture: %s'' e]"
    from faces_abort [OF i Some] Suc.prems(2)
    have r: "r = Inl LogFatal" and w': "w' = w\<lparr>calls := calls w @ ?N\<rparr>"
      by simp_all
    have seg: "loaded (face_path a k) ?N =
        (\<forall>j. i \<le> j \<and> j < k \<longrightarrow> image_error w (face_path a j) = None)"
      if "i \<le> k \<and> k < 6" for k
    proof (cases "k = i")
      case True
      then show ?thesis
        by (auto simp add: loaded_def is_load_def)
    next
      case False
      with that have "i < k" "k < 6"
        by simp_all
      with Some i have "\<not> (\<forall>j. i \<le> j \<and> j < k \<longrightarrow> image_error w (face_path a j) = None)"
        by auto
      moreover from False i \<open>k < 6\<close> have "\<not> loaded (face_path a k) ?N"
        by (simp add: loaded_def is_load_def face_path_inj)
      ultimately show ?thesis
        by simp
    qed
    have "calls w' = calls w @ ?N" "image_error w' = image_error w"
      by (simp_all add: w')
    moreover have "\<forall>p. fatal_after p ?N = load_failed p ?N"
      by (simp add: load_failed_def is_load_def is_failed_load_def is_fatal_def)
    moreover have "\<forall>p. load_failed p ?N = (loaded p ?N \<and> image_error w p \<noteq> None)"
      using Some by (auto simp add: load_failed_def loaded_def is_load_def is_failed_load_def)
    moreover have "\<forall>p. loaded p ?N \<longrightarrow> (\<exists>k. i \<le> k \<and> k < 6 \<and> p = face_path a k)"
      using i by (auto simp add: loaded_def is_load_def)
    moreover have "(r = Inl LogFatal) = (fatals ?N \<noteq> [])"
      by (simp add: r fatals_def is_fatal_def)
    moreover have "?N = [] \<or> \<not> is_fatal (hd ?N)"
      by (simp add: is_fatal_def)
    ultimately show ?thesis
      using seg r by (intro exI [of _ ?N]) simp
  next
    case None
    let ?w1 = "w\<lparr>calls := calls w @ face_calls a s i (next_ref w), next_ref := next_ref w + 2\<rparr>"
    from faces_step [OF i None] Suc.prems(2) have run: "Skybox_faces a s (Suc i) ?w1 = (r, w')"
      by simp
    from Suc.hyps(2) i have "n = 6 - Suc i" "Suc i \<le> 6"
      by simp_all
    from Suc.hyps(1) [OF this run] obtain N where
      c: "calls w' = calls ?w1 @ N" and e: "image_error w' = image_error ?w1"
      and fa: "\<forall>p. fatal_after p N = load_failed p N"
      and lf: "\<forall>p. load_failed p N = (loaded p N \<and> image_error ?w1 p \<noteq> None)"
      and seg: "\<forall>k. Suc i \<le> k \<and> k < 6 \<longrightarrow>
        loaded (face_path a k) N =
          (\<forall>j. Suc i \<le> j \<and> j < k \<longrightarrow> image_error ?w1 (face_path a j) = None)"
      and only: "\<forall>p. loaded p N \<longrightarrow> (\<exists>k. Suc i \<le> k \<and> k < 6 \<and> p = face_path a k)"
      and r: "(r = Inl LogFatal) = (fatals N \<noteq> [])"
      and r': "r \<noteq> Inl LogFatal \<longrightarrow> r = Inr ()"
      by blast
    let ?N = "face_calls a s i (next_ref w) @ N"
    have seg': "loaded (face_path a k) ?N =
        (\<forall>j. i \<le> j \<and> j < k \<longrightarrow> image_error w (face_path a j) = None)"
      if "i \<le> k \<and> k < 6" for k
    proof (cases "k = i")
      case True
      then show ?thesis
        by (auto simp add: loaded_face_calls)
    next
      case False
      with that have k: "Suc i \<le> k \<and> k < 6"
        by simp
      have "(\<forall>j. i \<le> j \<and> j < k \<longrightarrow> image_error w (face_path a j) = None) =
          (\<forall>j. Suc i \<le> j \<and> j < k \<longrightarrow> image_error w (face_path a j) = None)"
        using None by (metis Suc_leI le_neq_implies_less Suc_leD)
      with seg k False i show ?thesis
        by (simp add: loaded_face_calls face_path_inj)
    qed
    have "calls w' = calls w @ ?N" "image_error w' = image_error w"
      using c e by simp_all
    moreover have "\<forall>p. fatal_after p ?N = load_failed p ?N"
      using fa by (simp add: fatal_after_face_calls load_failed_face_calls)
    moreover have "\<forall>p. load_failed p ?N = (loaded p ?N \<and> image_error w p \<noteq> None)"
      using lf None by (auto simp add: load_failed_face_calls loaded_face_calls)
    moreover have "\<forall>p. loaded p ?N \<longrightarrow> (\<exists>k. i \<le> k \<and> k < 6 \<and> p = face_path a k)"
      using only i by (auto simp add: loaded_face_calls intro: Suc_leD)
    moreover have "(r = Inl LogFatal) = (fatals ?N \<noteq> [])"
      using r by (simp add: fatals_face_calls)
    moreover have "?N = [] \<or> \<not> is_fatal (hd ?N)"
      by (simp add: face_calls_def is_fatal_def)
    ultimately show ?thesis
      using seg' r' by (intro exI [of _ ?N]) simp
  qed
qed

lemma Skybox_Initialize_unfold:
  "Skybox_Initialize a t w =
     (case Skybox_faces a (next_ref w + 2) 0
             (w\<lparr>next_ref := next_ref w + 3, calls := calls w @ skybox_start a (next_ref w)\<rparr>) of
        (Inl p, w') \<Rightarrow> (Inl p, w')
      | (Inr u, w') \<Rightarrow> (Inr t, w'\<lparr>calls := calls w' @ [Add (App_Scene a) (next_ref w + 2)]\<rparr>))"
  by (simp add: Skybox_Initialize_def skybox_start_def new_def alloc_def call_def Let_def
      numeral_3_eq_3 split: prod.split sum.split)

lemma fatal_after_start: "fatal_after p (skybox_start a n @ cs) = fatal_after p cs"
  by (simp add: skybox_start_def is_load_def fatal_after_skip)

lemma loaded_start: "loaded p (skybox_start a n @ cs) = loaded p cs"
  by (simp add: skybox_start_def loaded_def is_load_def)

lemma load_failed_start: "load_failed p (skybox_start a n @ cs) = load_failed p cs"
  by (simp add: skybox_start_def load_failed_def is_failed_load_def)

lemma fatals_start: "fatals (skybox_start a n @ cs) = fatals cs"
  by (simp add: skybox_start_def fatals_def is_fatal_def)

lemma Skybox_Initialize_log:
  "\<exists>N. emitted w (snd (Skybox_Initialize a t w)) = N \<and>
     (\<forall>p. fatal_after p N = load_failed p N) \<and>
     (\<forall>p. load_failed p N = (loaded p N \<and> image_error w p \<noteq> None)) \<and>
     (\<forall>k. k < 6 \<longrightarrow>
        loaded (face_path a k) N = (\<forall>j. j < k \<longrightarrow> image_error w (face_path a j) = None)) \<and>
     (\<forall>p. loaded p N \<longrightarrow> (\<exists>k. k < 6 \<and> p = face_path a k)) \<and>
     (fst (Skybox_Initialize a t w) = Inl LogFatal) = (fatals N \<noteq> []) \<and>
     (fst (Skybox_Initialize a t w) \<noteq> Inl LogFatal \<longrightarrow> fst (Skybox_Initialize a t w) = Inr t)"
proof -
  let ?w1 = "w\<lparr>next_ref := next_ref w + 3, calls := calls w @ skybox_start a (next_ref w)\<rparr>"
  obtain r w' where run: "Skybox_faces a (next_ref w + 2) 0 ?w1 = (r, w')"
    by (cases "Skybox_faces a (next_ref w + 2) 0 ?w1")
  from faces_log [OF _ run] obtain N where
    c: "calls w' = calls ?w1 @ N"
    and fa: "\<forall>p. fatal_after p N = load_failed p N"
    and lf: "\<forall>p. load_failed p N = (loaded p N \<and> image_error ?w1 p \<noteq> None)"
    and seg: "\<forall>k. 0 \<le> k \<and> k < 6 \<longrightarrow>
        loaded (face_path a k) N =
          (\<forall>j. 0 \<le> j \<and> j < k \<longrightarrow> image_error ?w1 (face_path a j) = None)"
    and only: "\<forall>p. loaded p N \<longrightarrow> (\<exists>k. 0 \<le> k \<and> k < 6 \<and> p = face_path a k)"
    and r: "(r = Inl LogFatal) = (fatals N \<noteq> [])"
    and r': "r \<noteq> Inl LogFatal \<longrightarrow> r = Inr ()"
    and hd: "N = [] \<or> \<not> is_fatal (hd N)"
    by auto
  show ?thesis
  proof (cases "r = Inl LogFatal")
    case True
    with run c have e: "emitted w (snd (Skybox_Initialize a t w)) = skybox_start a (next_ref w) @ N"
      and f: "fst (Skybox_Initialize a t w) = Inl LogFatal"
      by (simp_all add: Skybox_Initialize_unfold emitted_def)
    from fa lf seg only r True show ?thesis
      by (simp add: e f fatal_after_start loaded_start load_failed_start fatals_start)
  next
    case False
    with r' have ok: "r = Inr ()"
      by simp
    with run c have e: "emitted w (snd (Skybox_Initialize a t w)) =
        skybox_start a (next_ref w) @ N @ [Add (App_Scene a) (next_ref w + 2)]"
      and f: "fst (Skybox_Initialize a t w) = Inr t"
      by (simp_all add: Skybox_Initialize_unfold emitted_def)
    have loaded_snoc: "loaded p (N @ [Add x y]) = loaded p N" for p x y
      by (simp add: loaded_def is_load_def)
    have failed_snoc: "load_failed p (N @ [Add x y]) = load_failed p N" for p x y
      by (simp add: load_failed_def is_failed_load_def)
    have fatals_snoc: "fatals (N @ [Add x y]) = fatals N" for x y
      by (simp add: fatals_def is_fatal_def)
    have fatal_snoc: "fatal_after p (N @ [Add x y]) = fatal_after p N" for p x y
      by (simp add: fatal_after_snoc is_fatal_def)
    from fa lf seg only r ok show ?thesis
      by (simp add: e f fatal_after_start loaded_start load_failed_start fatals_start
          loaded_snoc failed_snoc fatals_snoc fatal_snoc)
  qed
qed

lemma fatals_scene: "fatals (scene_calls math32_Pi cx n) = []"
  by (simp add: fatals_def scene_calls_def is_fatal_def)

lemma fatals_control: "fatals (control_calls control n) = []"
  by (simp add: fatals_def control_calls_def is_fatal_def)

lemma fatals_invoke: "fatals (emitted w (snd (invoke h evname ev sg w))) = []"
  by (cases h) (simp_all add: fatals_def emitted_def call_def is_fatal_def Let_def)

lemma fatals_Render: "fatals (emitted w (snd (ShaderGeometry_Render cx sg w))) = []"
  by (simp add: ShaderGeometry_Render_def fatals_def emitted_def call_def is_fatal_def Let_def
      split: option.splits)

lemma faces_run:
  assumes "i \<le> 6"
    and "\<forall>k. i \<le> k \<and> k < 6 \<longrightarrow> image_error w (face_path a k) = None"
  shows "Skybox_faces a s i w =
     (Inr (),
      w\<lparr>next_ref := next_ref w + 2 * (6 - i),
        calls := calls w @
          concat (map (\<lambda>k. face_calls a s k (next_ref w + 2 * (k - i))) [i..<6])\<rparr>)"
  using assms
proof (induction "6 - i" arbitrary: i w)
  case 0
  then have "i = 6"
    by simp
  then show ?case
    by (simp add: faces_done)
next
  case (Suc n)
  then have i: "i < 6"
    by simp
  from Suc.prems(2) i have ok: "image_error w (face_path a i) = None"
    by simp
  let ?w1 = "w\<lparr>calls := calls w @ face_calls a s i (next_ref w), next_ref := next_ref w + 2\<rparr>"
  from Suc.hyps(2) i have n: "n = 6 - Suc i" and le: "Suc i \<le> 6"
    by simp_all
  from Suc.prems(2) have rest:
    "\<forall>k. Suc i \<le> k \<and> k < 6 \<longrightarrow> image_error ?w1 (face_path a k) = None"
    by simp
  have m: "map (\<lambda>k. face_calls a s k (next_ref ?w1 + 2 * (k - Suc i))) [Suc i..<6] =
      map (\<lambda>k. face_calls a s k (next_ref w + 2 * (k - i))) [Suc i..<6]"
  proof (rule map_cong)
    fix k
    assume "k \<in> set [Suc i..<6]"
    then have "next_ref ?w1 + 2 * (k - Suc i) = next_ref w + 2 * (k - i)"
      by auto
    then show "face_calls a s k (next_ref ?w1 + 2 * (k - Suc i)) =
        face_calls a s k (next_ref w + 2 * (k - i))"
      by (rule arg_cong)
  qed simp
  have u: "[i..<6] = i # [Suc i..<6]"
    using i by (simp add: upt_conv_Cons)
  have ar: "Suc (Suc (next_ref w + 2 * (5 - i))) = next_ref w + 2 * (6 - i)"
    using i by simp
  show ?case
    by (simp only: faces_step [OF i ok] Suc.hyps(1) [OF n le rest] m u) (simp add: le ar)
qed

lemma upt_0_6: "[0..<6] = [0, 1, 2, 3, 4, 5]"
  by (simp add: upt_rec)

lemma all_less_6: "(\<forall>i<6. P i) = (P 0 \<and> P 1 \<and> P 2 \<and> P 3 \<and> P 4 \<and> P (5::nat))"
proof -
  have "{..<6::nat} = {0, 1, 2, 3, 4, 5}"
    by auto
  then have "(\<forall>i<6. P i) = (\<forall>i\<in>{0, 1, 2, 3, 4, 5}. P i)"
    by (metis lessThan_iff)
  then show ?thesis
    by simp
qed

lemma Skybox_Initialize_ok:
  assumes "\<forall>k<6. image_error w (face_path a k) = None"
  shows "Skybox_Initialize a t w =
     (Inr t,
      w\<lparr>next_ref := next_ref w + 15,
        calls := calls w @ skybox_start a (next_ref w) @
          concat (map (\<lambda>k. face_calls a (next_ref w + 2) k (next_ref w + 3 + 2 * k)) [0..<6]) @
          [Add (App_Scene a) (next_ref w + 2)]\<rparr>)"
proof -
  let ?w1 = "w\<lparr>next_ref := next_ref w + 3, calls := calls w @ skybox_start a (next_ref w)\<rparr>"
  from assms have ok: "\<forall>k. 0 \<le> k \<and> k < 6 \<longrightarrow> image_error ?w1 (face_path a k) = None"
    by simp
  show ?thesis
    by (simp add: Skybox_Initialize_unfold faces_run [OF _ ok])
qed

lemma skybox_log:
  "skybox_start a n @
     concat (map (\<lambda>k. face_calls a (n + 2) k (n + 3 + 2 * k)) [0..<6]) @
     [Add (App_Scene a) (n + 2)] =
   [graphic_NewAxisHelper 2 n,
    Add (App_Scene a) n,
    geometry_NewBox 50 50 50 2 2 2 (n + 1),
    graphic_NewMesh (n + 1) None (n + 2),
    texture_NewTexture2DFromImage (face_path a 0) (Inr (n + 3)),
    material_NewStandard (Color 1 1 1) (n + 4),
    AddTexture (n + 4) (n + 3),
    SetSide (n + 4) SideBack,
    AddGroupMaterial (n + 2) (n + 4) 0,
    texture_NewTexture2DFromImage (face_path a 1) (Inr (n + 5)),
    material_NewStandard (Color 1 1 1) (n + 6),
    AddTexture (n + 6) (n + 5),
    SetSide (n + 6) SideBack,
    AddGroupMaterial (n + 2) (n + 6) 1,
    texture_NewTexture2DFromImage (face_path a 2) (Inr (n + 7)),
    material_NewStandard (Color 1 1 1) (n + 8),
    AddTexture (n + 8) (n + 7),
    SetSide (n + 8) SideBack,
    AddGroupMaterial (n + 2) (n + 8) 2,
    texture_NewTexture2DFromImage (face_path a 3) (Inr (n + 9)),
    material_NewStandard (Color 1 1 1) (n + 10),
    AddTexture (n + 10) (n + 9),
    SetSide (n + 10) SideBack,
    AddGroupMaterial (n + 2) (n + 10) 3,
    texture_NewTexture2DFromImage (face_path a 4) (Inr (n + 11)),
    material_NewStandard (Color 1 1 1) (n + 12),
    AddTexture (n + 12) (n + 11),
    SetSide (n + 12) SideBack,
    AddGroupMaterial (n + 2) (n + 12) 4,
    texture_NewTexture2DFromImage (face_path a 5) (Inr (n + 13)),
    material_NewStandard (Color 1 1 1) (n + 14),
    AddTexture (n + 14) (n + 13),
    SetSide (n + 14) SideBack,
    AddGroupMaterial (n + 2) (n + 14) 5]
   @ [Add (App_Scene a) (n + 2)]"
  by (simp add: upt_0_6 skybox_start_def face_calls_def)

text \<open>
  C1, as the code has it.  \<open>ShaderGeometry.Render\<close> does not read its context, so no
  delta-time reaches it: with any two contexts it does the same.  With the rotate flag set
  and the three meshes there, it returns without a panic and makes three engine calls: it
  adds 0.01 to the plane's rotation about X, 0.01 to the box's about Y and 0.005 to the
  sphere's about Z.  With the flag clear it does nothing.  \<open>Skybox.Render\<close> changes
  nothing at all.
\<close>

theorem Render_increments_fixed:
  "ShaderGeometry_Render cx t w = ShaderGeometry_Render cx' t w \<and>
   (rotate_flag t \<longrightarrow> plane t = Some p \<longrightarrow> box t = Some b \<longrightarrow> sphere t = Some s \<longrightarrow>
      fst (ShaderGeometry_Render cx t w) = Inr t \<and>
      emitted w (snd (ShaderGeometry_Render cx t w)) =
        [AddRotationX p 0.01, AddRotationY b 0.01, AddRotationZ s 0.005] \<and>
      rotation_increments (emitted w (snd (ShaderGeometry_Render cx t w))) =
        [(p, AxisX, 0.01), (b, AxisY, 0.01), (s, AxisZ, 0.005)]) \<and>
   (\<not> rotate_flag t \<longrightarrow> ShaderGeometry_Render cx t w = (Inr t, w)) \<and>
   Skybox_Render a sb w = (sb, w)"
  by (simp add: ShaderGeometry_Render_def Skybox_Render_def call_def emitted_def
      rotation_increments_def)

theorem Render_increments_fixed_witness:
  "let t = fst (ShaderGeometry_Initialize 3 example_Context ShaderGeometry_zero example_world);
       w = snd (ShaderGeometry_Initialize 3 example_Context ShaderGeometry_zero example_world)
   in rotate_flag t \<and> plane t = Some 9 \<and> box t = Some 11 \<and> sphere t = Some 13 \<and>
      ShaderGeometry_Render example_Context t w =
        ShaderGeometry_Render (example_Context\<lparr>FrameDelta := 1 / 30\<rparr>) t w \<and>
      rotation_increments (emitted w (snd (ShaderGeometry_Render example_Context t w))) =
        [(9, AxisX, 0.01), (11, AxisY, 0.01), (13, AxisZ, 0.005)] \<and>
      \<not> rotate_flag ShaderGeometry_zero \<and>
      ShaderGeometry_Render example_Context ShaderGeometry_zero w = (Inr ShaderGeometry_zero, w)"
proof -
  let ?i = "ShaderGeometry_Initialize 3 example_Context ShaderGeometry_zero example_world"
  have c: "Control example_Context = Some 3"
    by (simp add: example_Context_def)
  have h: "rotate_flag (fst ?i) \<and> plane (fst ?i) = Some 9 \<and> box (fst ?i) = Some 11 \<and>
      sphere (fst ?i) = Some 13"
    by (simp add: Initialize_with_Control [OF c] example_world_def)
  have z: "\<not> rotate_flag ShaderGeometry_zero"
    by (simp add: ShaderGeometry_zero_def)
  note a = Render_increments_fixed [of example_Context "fst ?i" "snd ?i"
      "example_Context\<lparr>FrameDelta := 1 / 30\<rparr>" 9 11 13 example_App Skybox]
  note b = Render_increments_fixed [of example_Context ShaderGeometry_zero "snd ?i"
      example_Context 9 11 13 example_App Skybox]
  from a have a1: "ShaderGeometry_Render example_Context (fst ?i) (snd ?i) =
      ShaderGeometry_Render (example_Context\<lparr>FrameDelta := 1 / 30\<rparr>) (fst ?i) (snd ?i)"
    by (rule conjunct1)
  from a h have a2:
    "rotation_increments (emitted (snd ?i) (snd (ShaderGeometry_Render example_Context (fst ?i) (snd ?i)))) =
       [(9, AxisX, 0.01), (11, AxisY, 0.01), (13, AxisZ, 0.005)]"
    by blast
  from b z have b1:
    "ShaderGeometry_Render example_Context ShaderGeometry_zero (snd ?i) = (Inr ShaderGeometry_zero, snd ?i)"
    by blast
  from h z a1 a2 b1 show ?thesis
    unfolding Let_def by blast
qed

text \<open>
  C1 as it is stated fails: at the delta-times 1/60 and 1/30 the increments are the same
  three constants.
\<close>

theorem Render_delta_time_counterexample:
  "rotation_increments
     (emitted example_world
        (snd (ShaderGeometry_Render (example_Context\<lparr>FrameDelta := 1 / 60\<rparr>)
           (ShaderGeometry_zero\<lparr>plane := Some 1, box := Some 2, sphere := Some 3,
              rotate_flag := True\<rparr>) example_world))) =
     [(1, AxisX, 0.01), (2, AxisY, 0.01), (3, AxisZ, 0.005)] \<and>
   rotation_increments
     (emitted example_world
        (snd (ShaderGeometry_Render (example_Context\<lparr>FrameDelta := 1 / 30\<rparr>)
           (ShaderGeometry_zero\<lparr>plane := Some 1, box := Some 2, sphere := Some 3,
              rotate_flag := True\<rparr>) example_world))) =
     [(1, AxisX, 0.01), (2, AxisY, 0.01), (3, AxisZ, 0.005)] \<and>
   FrameDelta (example_Context\<lparr>FrameDelta := 1 / 60\<rparr>) \<noteq>
     FrameDelta (example_Context\<lparr>FrameDelta := 1 / 30\<rparr>)"
  by (simp add: ShaderGeometry_Render_def ShaderGeometry_zero_def example_world_def
      call_def emitted_def rotation_increments_def)

text \<open>
  C2.  In the log of \<open>Skybox.Initialize\<close>, for every path: a load of the image at that
  path is followed at once by the host's \<open>Fatal\<close> exactly if a load of it returned an
  error, which is exactly if it was loaded and the loader fails on it.  The images loaded
  are face textures only, and the \<open>k\<close>-th of the six is loaded exactly if every
  earlier one loaded without error (\<open>Fatal\<close> aborts).  \<open>Initialize\<close> ends in that
  abort exactly if it called \<open>Fatal\<close>, and returns otherwise.  No other operation of the
  two demos calls \<open>Fatal\<close>: not \<open>ShaderGeometry.Initialize\<close>, not a checkbox closure,
  not \<open>ShaderGeometry.Render\<close>, not \<open>NormalsMaterial.RenderSetup\<close>, not
  \<open>Skybox.Render\<close>.
\<close>

theorem fatal_only_on_failed_texture_load:
  "(\<forall>p. fatal_after p (emitted w (snd (Skybox_Initialize a t w))) =
         load_failed p (emitted w (snd (Skybox_Initialize a t w)))) \<and>
   (\<forall>p. load_failed p (emitted w (snd (Skybox_Initialize a t w))) =
         (loaded p (emitted w (snd (Skybox_Initialize a t w))) \<and> image_error w p \<noteq> None)) \<and>
   (\<forall>k. k < 6 \<longrightarrow>
      loaded (face_path a k) (emitted w (snd (Skybox_Initialize a t w))) =
        (\<forall>j. j < k \<longrightarrow> image_error w (face_path a j) = None)) \<and>
   (\<forall>p. loaded p (emitted w (snd (Skybox_Initialize a t w))) \<longrightarrow>
      (\<exists>k. k < 6 \<and> p = face_path a k)) \<and>
   (fst (Skybox_Initialize a t w) = Inl LogFatal) =
     (fatals (emitted w (snd (Skybox_Initialize a t w))) \<noteq> []) \<and>
   (fst (Skybox_Initialize a t w) \<noteq> Inl LogFatal \<longrightarrow> fst (Skybox_Initialize a t w) = Inr t) \<and>
   fatals (emitted w (snd (ShaderGeometry_Initialize math32_Pi cx sg w))) = [] \<and>
   fatals (emitted w (snd (invoke h evname ev sg w))) = [] \<and>
   fatals (emitted w (snd (ShaderGeometry_Render cx sg w))) = [] \<and>
   fatals (emitted w (NormalsMaterial_RenderSetup m gs w)) = [] \<and>
   fatals (emitted w (snd (Skybox_Render a t w))) = []"
proof -
  have sg: "fatals (emitted w (snd (ShaderGeometry_Initialize math32_Pi cx sg w))) = []"
  proof (cases "Control cx")
    case None
    then show ?thesis
      by (simp add: emitted_Initialize_None fatals_scene)
  next
    case (Some control)
    then show ?thesis
      using fatals_scene [of math32_Pi cx "next_ref w"] fatals_control [of control "next_ref w"]
      by (simp add: emitted_Initialize_Some fatals_def)
  qed
  have rs: "fatals (emitted w (NormalsMaterial_RenderSetup m gs w)) = []"
    by (simp add: NormalsMaterial_RenderSetup_def fatals_def emitted_def call_def is_fatal_def)
  have sr: "fatals (emitted w (snd (Skybox_Render a t w))) = []"
    by (simp add: Skybox_Render_def fatals_def emitted_def)
  from Skybox_Initialize_log [of w a t] sg rs sr fatals_invoke [of w h evname ev sg]
    fatals_Render [of w cx sg]
  show ?thesis
    by simp
qed


theorem fatal_only_on_failed_texture_load_witness:
  "(0::nat) < 6 \<and> (1::nat) < 6 \<and> (2::nat) < 6 \<and>
   \<not> fatal_after (face_path example_App 0)
     (emitted example_world_missing (snd (Skybox_Initialize example_App Skybox example_world_missing))) \<and>
   fatal_after (face_path example_App 1)
     (emitted example_world_missing (snd (Skybox_Initialize example_App Skybox example_world_missing))) \<and>
   \<not> loaded (face_path example_App 2)
     (emitted example_world_missing (snd (Skybox_Initialize example_App Skybox example_world_missing))) \<and>
   \<not> fatal_after (face_path example_App 2)
     (emitted example_world_missing (snd (Skybox_Initialize example_App Skybox example_world_missing)))"
proof -
  let ?N = "emitted example_world_missing
    (snd (Skybox_Initialize example_App Skybox example_world_missing))"
  note T = fatal_only_on_failed_texture_load
    [where w = example_world_missing and a = example_App and t = Skybox]
  have e0: "image_error example_world_missing (face_path example_App 0) = None"
    by (simp add: example_world_missing_def face_path_def example_App_def textures_def)
  have e1: "image_error example_world_missing (face_path example_App 1) \<noteq> None"
    by (simp add: example_world_missing_def face_path_def example_App_def textures_def)
  note fa = T [THEN conjunct1, rule_format]
  note lf = T [THEN conjunct2, THEN conjunct1, rule_format]
  note seg = T [THEN conjunct2, THEN conjunct2, THEN conjunct1, rule_format]
  have l1: "loaded (face_path example_App 1) ?N"
    using seg [of 1] e0 by simp
  have l2: "\<not> loaded (face_path example_App 2) ?N"
  proof -
    have "\<not> (\<forall>j. j < 2 \<longrightarrow> image_error example_world_missing (face_path example_App j) = None)"
      using e1 by (auto intro: exI [of _ 1])
    with seg [of 2] show ?thesis
      by simp
  qed
  from fa [of "face_path example_App 0"] lf [of "face_path example_App 0"] e0
  have f0: "\<not> fatal_after (face_path example_App 0) ?N"
    by simp
  from fa [of "face_path example_App 1"] lf [of "face_path example_App 1"] e1 l1
  have f1: "fatal_after (face_path example_App 1) ?N"
    by simp
  from fa [of "face_path example_App 2"] lf [of "face_path example_App 2"] l2
  have f2: "\<not> fatal_after (face_path example_App 2) ?N"
    by simp
  from f0 f1 l2 f2 show ?thesis
    by simp
qed

text \<open>
  C3.  The \<open>init\<close> of the geometry shader demo stores a fresh, zero \<open>ShaderGeometry\<close>
  under the key "shader.geometry" of the host's table, which is the category "shader", a
  dot and the name "geometry"; the table gains that one key and is unchanged at every other
  key.  The stored value answers \<open>Initialize\<close> and \<open>Render\<close> with the demo's own
  methods.  The same holds for the skybox demo, its table and the key
  "skybox.sanfrancisco".  Neither \<open>init\<close> takes or returns anything but the table.
\<close>

theorem init_registers_one_demo:
  "dom (init_shader_geometry TestMap) = insert ''shader.geometry'' (dom TestMap) \<and>
   init_shader_geometry TestMap ''shader.geometry'' = Some (ITest_ShaderGeometry ShaderGeometry_zero) \<and>
   init_shader_geometry TestMap |` (- {''shader.geometry''}) = TestMap |` (- {''shader.geometry''}) \<and>
   ''shader.geometry'' = demo_name ''shader'' ''geometry'' \<and>
   ITest_Initialize math32_Pi (ITest_ShaderGeometry ShaderGeometry_zero) cx w =
     (ITest_ShaderGeometry (fst (ShaderGeometry_Initialize math32_Pi cx ShaderGeometry_zero w)),
      snd (ShaderGeometry_Initialize math32_Pi cx ShaderGeometry_zero w)) \<and>
   ITest_Render (ITest_ShaderGeometry ShaderGeometry_zero) cx w =
     (Inr (ITest_ShaderGeometry ShaderGeometry_zero), w) \<and>
   dom (init_skybox Map) = insert ''skybox.sanfrancisco'' (dom Map) \<and>
   init_skybox Map ''skybox.sanfrancisco'' = Some (IDemo_Skybox Skybox) \<and>
   init_skybox Map |` (- {''skybox.sanfrancisco''}) = Map |` (- {''skybox.sanfrancisco''}) \<and>
   ''skybox.sanfrancisco'' = demo_name ''skybox'' ''sanfrancisco'' \<and>
   fst (IDemo_Initialize (IDemo_Skybox Skybox) a w) =
     map_sum id IDemo_Skybox (fst (Skybox_Initialize a Skybox w)) \<and>
   snd (IDemo_Initialize (IDemo_Skybox Skybox) a w) = snd (Skybox_Initialize a Skybox w) \<and>
   IDemo_Render (IDemo_Skybox Skybox) a w = (IDemo_Skybox Skybox, w)"
proof -
  have "ITest_Render (ITest_ShaderGeometry ShaderGeometry_zero) cx w =
     (Inr (ITest_ShaderGeometry ShaderGeometry_zero), w)"
    by (simp add: ShaderGeometry_Render_def ShaderGeometry_zero_def)
  moreover have "fst (IDemo_Initialize (IDemo_Skybox Skybox) a w) =
       map_sum id IDemo_Skybox (fst (Skybox_Initialize a Skybox w)) \<and>
     snd (IDemo_Initialize (IDemo_Skybox Skybox) a w) = snd (Skybox_Initialize a Skybox w)"
    by (cases "Skybox_Initialize a Skybox w") (auto split: sum.splits)
  moreover have "init_shader_geometry TestMap |` (- {''shader.geometry''}) =
      TestMap |` (- {''shader.geometry''})"
    by (simp add: init_shader_geometry_def)
  moreover have "init_skybox Map |` (- {''skybox.sanfrancisco''}) =
      Map |` (- {''skybox.sanfrancisco''})"
    by (simp add: init_skybox_def)
  ultimately show ?thesis
    by (simp add: init_shader_geometry_def init_skybox_def demo_name_def Skybox_Render_def
        split_def Let_def)
qed

text \<open>
  C4.  Whatever the context, \<open>ShaderGeometry.Initialize\<close> makes exactly three
  \<open>AddShader\<close> calls, on the context's renderer: the vertex, the geometry and the
  fragment stage, each under its name and with its source constant as it stands; and exactly
  one \<open>AddProgram\<close> call, for \<open>progGSDemo\<close>, which names those three stages.
\<close>

theorem Initialize_registers_shaders:
  "shaders_added (emitted w (snd (ShaderGeometry_Initialize math32_Pi cx t w))) =
     [(Renderer cx, ''shaderGSDemoVertex'', sourceGSDemoVertex),
      (Renderer cx, ''shaderGSDemoGeometry'', sourceGSDemoGeometry),
      (Renderer cx, ''shaderGSDemoFrag'', sourceGSDemoFrag)] \<and>
   programs_added (emitted w (snd (ShaderGeometry_Initialize math32_Pi cx t w))) =
     [(Renderer cx, ''progGSDemo'', ''shaderGSDemoVertex'', ''shaderGSDemoFrag'',
       ''shaderGSDemoGeometry'')]"
proof (cases "Control cx")
  case None
  then show ?thesis
    by (simp add: emitted_Initialize_None shaders_scene programs_scene)
next
  case (Some control)
  then show ?thesis
    by (simp add: emitted_Initialize_Some shaders_added_def programs_added_def map_filter_append
        shaders_scene [unfolded shaders_added_def] shaders_control [unfolded shaders_added_def]
        programs_scene [unfolded programs_added_def] programs_control [unfolded programs_added_def])
qed

text \<open>
  C5, as the code has it.  Let all six face textures load.  Then \<open>Skybox.Initialize\<close> returns, and its log
  shows: one box geometry, 50 by 50 by 50 with 2 segments each way, and one mesh, made of
  that geometry with no material; six pairwise distinct materials, the \<open>i\<close>-th of them
  attached to the mesh for group \<open>i\<close>, for \<open>i\<close> from 0 to 5 in this order, and nothing
  else attached; each of them made by \<open>NewStandard\<close> with the colour (1, 1, 1), given
  exactly one texture, the one that loading the \<open>i\<close>-th file of the list returned, and
  set to exactly one side, \<open>SideBack\<close>; and as the last call, the mesh added to the
  scene.
\<close>

theorem Skybox_Initialize_builds_textured_cube:
  assumes "\<forall>k<6. image_error w (face_path a k) = None"
    and "Skybox_Initialize a t w = (r, w1)"
  shows "r = Inr t \<and>
     (\<exists>geom skybox ms texs.
        boxes (emitted w w1) = [(50, 50, 50, 2, 2, 2, geom)] \<and>
        meshes (emitted w w1) = [(geom, None, skybox)] \<and>
        length ms = 6 \<and> length texs = 6 \<and> distinct ms \<and>
        group_materials (emitted w w1) = map (\<lambda>i. (skybox, ms ! i, int i)) [0..<6] \<and>
        (\<forall>i<6. (Color 1 1 1, ms ! i) \<in> set (standard_materials (emitted w w1)) \<and>
               textures_of (emitted w w1) (ms ! i) = [texs ! i] \<and>
               sides_of (emitted w w1) (ms ! i) = [SideBack] \<and>
               (face_path a i, Inr (texs ! i)) \<in> set (loads (emitted w w1))) \<and>
        last (emitted w w1) = Add (App_Scene a) skybox)"
proof -
  let ?n = "next_ref w"
  let ?N = "emitted w w1"
  from Skybox_Initialize_ok [OF assms(1), of t] assms(2)
  have r: "r = Inr t"
    and w1: "w1 = w\<lparr>next_ref := ?n + 15,
        calls := calls w @ skybox_start a ?n @
          concat (map (\<lambda>k. face_calls a (?n + 2) k (?n + 3 + 2 * k)) [0..<6]) @
          [Add (App_Scene a) (?n + 2)]\<rparr>"
    by simp_all
  have N: "?N = skybox_start a ?n @
          concat (map (\<lambda>k. face_calls a (?n + 2) k (?n + 3 + 2 * k)) [0..<6]) @
          [Add (App_Scene a) (?n + 2)]"
    by (simp add: w1 emitted_def)
  note N' = N [unfolded skybox_log]
  let ?ms = "[?n + 4, ?n + 6, ?n + 8, ?n + 10, ?n + 12, ?n + 14]"
  let ?texs = "[?n + 3, ?n + 5, ?n + 7, ?n + 9, ?n + 11, ?n + 13]"
  have b: "boxes ?N = [(50, 50, 50, 2, 2, 2, ?n + 1)]"
    by (simp add: N' boxes_def)
  have m: "meshes ?N = [(?n + 1, None, ?n + 2)]"
    by (simp add: N' meshes_def)
  have g: "group_materials ?N = map (\<lambda>i. (?n + 2, ?ms ! i, int i)) [0..<6]"
    by (simp add: N' group_materials_def upt_0_6)
  have s: "(Color 1 1 1, ?ms ! i) \<in> set (standard_materials ?N)" if "i < 6" for i
    using that by (auto simp add: N' standard_materials_def all_less_6 [symmetric]
        less_Suc_eq eval_nat_numeral)
  have tx: "\<forall>i<6. textures_of ?N (?ms ! i) = [?texs ! i]"
    by (simp add: all_less_6 N' textures_of_def)
  have sd: "\<forall>i<6. sides_of ?N (?ms ! i) = [SideBack]"
    by (simp add: all_less_6 N' sides_of_def)
  have ld: "\<forall>i<6. (face_path a i, Inr (?texs ! i)) \<in> set (loads ?N)"
    by (simp add: all_less_6 N' loads_def)
  have l: "last ?N = Add (App_Scene a) (?n + 2)"
    by (simp add: N)
  have d: "distinct ?ms" "length ?ms = 6" "length ?texs = 6"
    by simp_all
  from s tx sd ld have faces:
    "\<forall>i<6. (Color 1 1 1, ?ms ! i) \<in> set (standard_materials ?N) \<and>
           textures_of ?N (?ms ! i) = [?texs ! i] \<and>
           sides_of ?N (?ms ! i) = [SideBack] \<and>
           (face_path a i, Inr (?texs ! i)) \<in> set (loads ?N)"
    by blast
  show ?thesis
    apply (rule conjI [OF r])
    apply (rule exI [of _ "?n + 1"])
    apply (rule exI [of _ "?n + 2"])
    apply (rule exI [of _ ?ms])
    apply (rule exI [of _ ?texs])
    apply (intro conjI)
           apply (rule b m d g faces l)+
    done
qed


theorem Skybox_Initialize_builds_textured_cube_witness:
  "image_error example_world (face_path example_App 0) = None \<and>
   image_error example_world (face_path example_App 1) = None \<and>
   image_error example_world (face_path example_App 2) = None \<and>
   image_error example_world (face_path example_App 3) = None \<and>
   image_error example_world (face_path example_App 4) = None \<and>
   image_error example_world (face_path example_App 5) = None \<and>
   fst (Skybox_Initialize example_App Skybox example_world) = Inr Skybox \<and>
   (\<exists>geom skybox ms.
      boxes (emitted example_world (snd (Skybox_Initialize example_App Skybox example_world))) =
        [(50, 50, 50, 2, 2, 2, geom)] \<and>
      meshes (emitted example_world (snd (Skybox_Initialize example_App Skybox example_world))) =
        [(geom, None, skybox)] \<and>
      distinct ms \<and>
      group_materials
          (emitted example_world (snd (Skybox_Initialize example_App Skybox example_world))) =
        map (\<lambda>i. (skybox, ms ! i, int i)) [0..<6] \<and>
      last (emitted example_world (snd (Skybox_Initialize example_App Skybox example_world))) =
        Add (App_Scene example_App) skybox)"
proof -
  have e: "image_error example_world p = None" for p
    by (simp add: example_world_def)
  then have h1: "\<forall>k<6. image_error example_world (face_path example_App k) = None"
    by simp
  have h2: "Skybox_Initialize example_App Skybox example_world =
      (fst (Skybox_Initialize example_App Skybox example_world),
       snd (Skybox_Initialize example_App Skybox example_world))"
    by simp
  note T = Skybox_Initialize_builds_textured_cube [OF h1 h2]
  from T have r: "fst (Skybox_Initialize example_App Skybox example_world) = Inr Skybox"
    by (rule conjunct1)
  from T [THEN conjunct2] have x: "\<exists>geom skybox ms.
      boxes (emitted example_world (snd (Skybox_Initialize example_App Skybox example_world))) =
        [(50, 50, 50, 2, 2, 2, geom)] \<and>
      meshes (emitted example_world (snd (Skybox_Initialize example_App Skybox example_world))) =
        [(geom, None, skybox)] \<and>
      distinct ms \<and>
      group_materials
          (emitted example_world (snd (Skybox_Initialize example_App Skybox example_world))) =
        map (\<lambda>i. (skybox, ms ! i, int i)) [0..<6] \<and>
      last (emitted example_world (snd (Skybox_Initialize example_App Skybox example_world))) =
        Add (App_Scene example_App) skybox"
    by (elim exE conjE) (intro exI conjI; assumption)
  from e r x show ?thesis
    by (intro conjI) (assumption | rule e)+
qed


text \<open>
  C5 as it is stated, for every run, fails: with negx.jpg missing, \<open>Initialize\<close> ends in
  the abort of \<open>Fatal\<close> after one material was attached, and the mesh is not added to
  the scene.  This is the whole run.
\<close>

theorem Skybox_Initialize_missing_texture_counterexample:
  "Skybox_Initialize example_App Skybox example_world_missing =
     (Inl LogFatal,
      \<lparr>calls =
         [graphic_NewAxisHelper 2 4,
          Add 1 4,
          geometry_NewBox 50 50 50 2 2 2 5,
          graphic_NewMesh 5 None 6,
          texture_NewTexture2DFromImage ''data/images/sanfrancisco/posx.jpg'' (Inr 7),
          material_NewStandard (Color 1 1 1) 8,
          AddTexture 8 7,
          SetSide 8 SideBack,
          AddGroupMaterial 6 8 0,
          texture_NewTexture2DFromImage ''data/images/sanfrancisco/negx.jpg''
            (Inl ''no such file or directory''),
          Fatal 0 ''Error loading texture: %s'' ''no such file or directory''],
       next_ref = 9,
       image_error = image_error example_world_missing\<rparr>)"
proof -
  let ?w1 = "example_world_missing\<lparr>next_ref := next_ref example_world_missing + 3,
    calls := calls example_world_missing @ skybox_start example_App (next_ref example_world_missing)\<rparr>"
  have p0: "face_path example_App 0 = ''data/images/sanfrancisco/posx.jpg''"
    and p1: "face_path example_App (Suc 0) = ''data/images/sanfrancisco/negx.jpg''"
    by (simp_all add: face_path_def example_App_def textures_def)
  have e0: "image_error ?w1 (face_path example_App 0) = None"
    by (simp add: p0 example_world_missing_def)
  let ?w2 = "?w1\<lparr>calls := calls ?w1 @ face_calls example_App 6 0 (next_ref ?w1),
    next_ref := next_ref ?w1 + 2\<rparr>"
  have e1: "image_error ?w2 (face_path example_App (Suc 0)) =
      Some ''no such file or directory''"
    by (simp add: p1 example_world_missing_def)
  have n: "next_ref example_world_missing + 2 = 6"
    by (simp add: example_world_missing_def)
  have s0: "Skybox_faces example_App 6 0 ?w1 = Skybox_faces example_App 6 (Suc 0) ?w2"
    by (rule faces_step [OF _ e0]) simp
  have s1: "Skybox_faces example_App 6 (Suc 0) ?w2 =
     (Inl LogFatal,
      ?w2\<lparr>calls := calls ?w2 @
         [texture_NewTexture2DFromImage (face_path example_App (Suc 0))
            (Inl ''no such file or directory''),
          Fatal (App_Log example_App) ''Error loading texture: %s''
            ''no such file or directory'']\<rparr>)"
    by (rule faces_abort [OF _ e1]) simp
  have a: "App_Scene example_App = 1" "App_Log example_App = 0"
    by (simp_all add: example_App_def)
  show ?thesis
    by (simp only: Skybox_Initialize_unfold n s0 s1)
      (simp add: p0 p1 a skybox_start_def face_calls_def example_world_missing_def)
qed

text \<open>
  C6.  When the control panel is there, \<open>ShaderGeometry.Initialize\<close> subscribes one
  closure to each of the four checkboxes, and the three show closures capture the material
  \<open>mat\<close> that the three meshes share.  Every run of the "Wireframe", "Vertex normals"
  or "Face normals" closure, from any state, sets its show field to 1 if it was 0 and to 0
  otherwise, changes no other field, and makes one engine call: it writes the new value to
  its uniform of \<open>mat\<close>.  Every run of the "Rotate" closure negates the rotate flag,
  changes no other field and makes no engine call.
\<close>

theorem checkbox_handlers:
  assumes "Control cx = Some control"
    and "ShaderGeometry_Initialize math32_Pi cx t0 w0 = (t1, w1)"
  shows "\<exists>mat.
     mesh_materials (emitted w0 w1) = [Some mat, Some mat, Some mat] \<and>
     wired (emitted w0 w1) =
       [(''Rotate'', onChange_Rotate),
        (''Wireframe'', onChange_Wireframe mat),
        (''Vertex normals'', onChange_Vnormal mat),
        (''Face normals'', onChange_Fnormal mat)] \<and>
     (\<forall>evname (ev :: 'e) t w.
        (let (t', w') = invoke (onChange_Wireframe mat) evname ev t w in
           t' = t\<lparr>showWireframe := (if showWireframe t = 0 then 1 else 0)\<rparr> \<and>
           emitted w w' = [Uniform_Set mat ShowWireframe (showWireframe t')]) \<and>
        (let (t', w') = invoke (onChange_Vnormal mat) evname ev t w in
           t' = t\<lparr>showVnormal := (if showVnormal t = 0 then 1 else 0)\<rparr> \<and>
           emitted w w' = [Uniform_Set mat ShowVnormal (showVnormal t')]) \<and>
        (let (t', w') = invoke (onChange_Fnormal mat) evname ev t w in
           t' = t\<lparr>showFnormal := (if showFnormal t = 0 then 1 else 0)\<rparr> \<and>
           emitted w w' = [Uniform_Set mat ShowFnormal (showFnormal t')]) \<and>
        (let (t', w') = invoke onChange_Rotate evname ev t w in
           t' = t\<lparr>rotate_flag := \<not> rotate_flag t\<rparr> \<and> emitted w w' = []))"
proof -
  from assms have e: "emitted w0 w1 =
      scene_calls math32_Pi cx (next_ref w0) @ control_calls control (next_ref w0)"
    using emitted_Initialize_Some [of cx control w0 math32_Pi t0] by simp
  show ?thesis
    apply (rule exI [of _ "next_ref w0 + 3"])
    apply (simp only: e wired_Initialize mesh_materials_append mesh_materials_scene
        mesh_materials_control)
    apply (simp add: emitted_call emitted_same Let_def)
    done
qed


theorem checkbox_handlers_witness:
  "Control \<lparr>Gui = 0, Scene = 1, Renderer = 2, Control = Some 3, FrameDelta = 1 / 60\<rparr> = Some 3 \<and>
   (\<exists>mat.
      mesh_materials (emitted \<lparr>calls = [], next_ref = 4, image_error = (\<lambda>p. None)\<rparr>
        (snd (ShaderGeometry_Initialize 3
           \<lparr>Gui = 0, Scene = 1, Renderer = 2, Control = Some 3, FrameDelta = 1 / 60\<rparr>
           ShaderGeometry_zero \<lparr>calls = [], next_ref = 4, image_error = (\<lambda>p. None)\<rparr>)))
        = [Some mat, Some mat, Some mat] \<and>
      wired (emitted \<lparr>calls = [], next_ref = 4, image_error = (\<lambda>p. None)\<rparr>
        (snd (ShaderGeometry_Initialize 3
           \<lparr>Gui = 0, Scene = 1, Renderer = 2, Control = Some 3, FrameDelta = 1 / 60\<rparr>
           ShaderGeometry_zero \<lparr>calls = [], next_ref = 4, image_error = (\<lambda>p. None)\<rparr>)))
        = [(''Rotate'', onChange_Rotate),
           (''Wireframe'', onChange_Wireframe mat),
           (''Vertex normals'', onChange_Vnormal mat),
           (''Face normals'', onChange_Fnormal mat)] \<and>
      invoke (onChange_Wireframe mat) gui_OnChange () ShaderGeometry_zero
          \<lparr>calls = [], next_ref = 4, image_error = (\<lambda>p. None)\<rparr>
        = (ShaderGeometry_zero\<lparr>showWireframe := 1\<rparr>,
           \<lparr>calls = [Uniform_Set mat ShowWireframe 1], next_ref = 4, image_error = (\<lambda>p. None)\<rparr>))"
proof -
  let ?cx = "\<lparr>Gui = 0, Scene = 1, Renderer = 2, Control = Some 3, FrameDelta = 1 / 60\<rparr>"
  let ?w = "\<lparr>calls = [], next_ref = 4, image_error = (\<lambda>p. None)\<rparr>"
  have h1: "Control ?cx = Some 3"
    by simp
  have h2: "ShaderGeometry_Initialize 3 ?cx ShaderGeometry_zero ?w =
      (fst (ShaderGeometry_Initialize 3 ?cx ShaderGeometry_zero ?w),
       snd (ShaderGeometry_Initialize 3 ?cx ShaderGeometry_zero ?w))"
    by simp
  from checkbox_handlers [OF h1 h2, where 'e = unit] obtain mat where
    m: "mesh_materials (emitted ?w (snd (ShaderGeometry_Initialize 3 ?cx ShaderGeometry_zero ?w)))
          = [Some mat, Some mat, Some mat]"
    and wi: "wired (emitted ?w (snd (ShaderGeometry_Initialize 3 ?cx ShaderGeometry_zero ?w))) =
       [(''Rotate'', onChange_Rotate),
        (''Wireframe'', onChange_Wireframe mat),
        (''Vertex normals'', onChange_Vnormal mat),
        (''Face normals'', onChange_Fnormal mat)]"
    by blast
  have "invoke (onChange_Wireframe mat) gui_OnChange () ShaderGeometry_zero ?w
        = (ShaderGeometry_zero\<lparr>showWireframe := 1\<rparr>,
           \<lparr>calls = [Uniform_Set mat ShowWireframe 1], next_ref = 4, image_error = (\<lambda>p. None)\<rparr>)"
    by (simp add: ShaderGeometry_zero_def call_def)
  with h1 m wi show ?thesis
    by blast
qed

text \<open>
  C7.  Let \<open>ShaderGeometry.Initialize\<close> run with a control panel, and then any sequence
  of the closures it subscribed.  Then each of \<open>showWireframe\<close>, \<open>showVnormal\<close> and
  \<open>showFnormal\<close> is 0 or 1 and is the value last written to its uniform of the material
  that the three meshes share.  From such a state, running any one of the closures an even
  number of times gives back the same demo object and the same last written value of
  every uniform of that material.
\<close>

theorem toggles_stay_consistent:
  assumes "Control cx = Some control"
    and "ShaderGeometry_Initialize math32_Pi cx t0 w0 = (t1, w1)"
    and "fst ` set evs \<subseteq> snd ` set (wired (emitted w0 w1))"
    and "invoke_all evs t1 w1 = (t2, w2)"
    and "h \<in> snd ` set (wired (emitted w0 w1))"
    and "invoke_all (replicate (2 * k) (h, evname, ev)) t2 w2 = (t3, w3)"
  shows "\<exists>mat.
     mesh_materials (emitted w0 w1) = [Some mat, Some mat, Some mat] \<and>
     toggles_consistent mat t2 w2 \<and>
     t3 = t2 \<and>
     (\<forall>u. uniform_value (calls w3) mat u = uniform_value (calls w2) mat u)"
proof -
  let ?mat = "next_ref w0 + 3"
  let ?hs = "{onChange_Rotate, onChange_Wireframe ?mat, onChange_Vnormal ?mat,
    onChange_Fnormal ?mat}"
  from assms(1,2) have e: "emitted w0 w1 =
      scene_calls math32_Pi cx (next_ref w0) @ control_calls control (next_ref w0)"
    using emitted_Initialize_Some [of cx control w0 math32_Pi t0] by simp
  have hs: "snd ` set (wired (emitted w0 w1)) = ?hs"
    by (simp only: e wired_Initialize) auto
  have m: "mesh_materials (emitted w0 w1) = [Some ?mat, Some ?mat, Some ?mat]"
    by (simp only: e mesh_materials_append mesh_materials_scene mesh_materials_control) simp
  have c1: "toggles_consistent ?mat t1 w1"
    using Initialize_consistent [OF assms(1,2)] .
  from assms(3) hs have sub: "fst ` set evs \<subseteq> ?hs"
    by simp
  have c2: "toggles_consistent ?mat t2 w2"
    using invoke_all_consistent [OF c1 sub assms(4)] .
  from assms(5) hs have h: "h \<in> ?hs"
    by simp
  from invoke_even [OF c2 h assms(6)] m c2 show ?thesis
    by blast
qed


theorem toggles_stay_consistent_witness:
  "let i = ShaderGeometry_Initialize 3 example_Context ShaderGeometry_zero example_world;
       evs = [(onChange_Wireframe 7, gui_OnChange, ()), (onChange_Rotate, gui_OnChange, ())];
       r2 = invoke_all evs (fst i) (snd i);
       r3 = invoke_all (replicate (2 * 1) (onChange_Vnormal 7, gui_OnChange, ())) (fst r2) (snd r2)
   in Control example_Context = Some 3 \<and>
      fst ` set evs \<subseteq> snd ` set (wired (emitted example_world (snd i))) \<and>
      onChange_Vnormal 7 \<in> snd ` set (wired (emitted example_world (snd i))) \<and>
      (\<exists>mat.
         mesh_materials (emitted example_world (snd i)) = [Some mat, Some mat, Some mat] \<and>
         toggles_consistent mat (fst r2) (snd r2) \<and>
         fst r3 = fst r2 \<and>
         (\<forall>u. uniform_value (calls (snd r3)) mat u = uniform_value (calls (snd r2)) mat u))"
proof -
  let ?i = "ShaderGeometry_Initialize 3 example_Context ShaderGeometry_zero example_world"
  let ?evs = "[(onChange_Wireframe 7, gui_OnChange, ()), (onChange_Rotate, gui_OnChange, ())]"
  let ?r2 = "invoke_all ?evs (fst ?i) (snd ?i)"
  let ?r3 = "invoke_all (replicate (2 * 1) (onChange_Vnormal 7, gui_OnChange, ())) (fst ?r2) (snd ?r2)"
  have h1: "Control example_Context = Some 3"
    by (simp add: example_Context_def)
  have h2: "?i = (fst ?i, snd ?i)"
    by simp
  have w: "wired (emitted example_world (snd ?i)) =
      [(''Rotate'', onChange_Rotate), (''Wireframe'', onChange_Wireframe 7),
       (''Vertex normals'', onChange_Vnormal 7), (''Face normals'', onChange_Fnormal 7)]"
    using wired_Initialize [of 3 example_Context 4 3]
    by (simp add: emitted_Initialize_Some [OF h1]) (simp add: example_world_def)
  have h3: "fst ` set ?evs \<subseteq> snd ` set (wired (emitted example_world (snd ?i)))"
    by (simp add: w)
  have h4: "?r2 = (fst ?r2, snd ?r2)"
    by simp
  have h5: "onChange_Vnormal 7 \<in> snd ` set (wired (emitted example_world (snd ?i)))"
    by (simp add: w)
  have h6: "?r3 = (fst ?r3, snd ?r3)"
    by simp
  from toggles_stay_consistent [OF h1 h2 h3 h4 h5 h6] h1 h3 h5 show ?thesis
    unfolding Let_def by blast
qed

text \<open>
  C8.  Let \<open>ctx.Control\<close> be nil and the rotate flag be false, as it is in the object
  that \<open>init\<close> registers.  Then \<open>ShaderGeometry.Initialize\<close> leaves the rotate flag
  false and the three show fields as they were, and subscribes no closure.  Any number of
  \<open>Render\<close> calls after it, with any contexts, return without a panic and leave the demo
  object and the world as they are: no engine call is made, so no rotation is added to any
  mesh.  The value last written to each uniform of the meshes' material stays 1.
\<close>

theorem nil_Control_keeps_still:
  assumes "Control cx = None"
    and "\<not> rotate_flag t0"
    and "ShaderGeometry_Initialize math32_Pi cx t0 w0 = (t1, w1)"
    and "render_frames cxs t1 w1 = (r, w2)"
  shows "\<not> rotate_flag t1 \<and>
     showWireframe t1 = showWireframe t0 \<and>
     showVnormal t1 = showVnormal t0 \<and>
     showFnormal t1 = showFnormal t0 \<and>
     subscriptions (emitted w0 w1) = [] \<and>
     r = Inr t1 \<and> w2 = w1 \<and>
     rotation_increments (emitted w1 w2) = [] \<and>
     (\<exists>mat.
        mesh_materials (emitted w0 w1) = [Some mat, Some mat, Some mat] \<and>
        (\<forall>u. uniform_value (calls w2) mat u = Some 1))"
proof -
  from assms(1,3) have t1: "t1 = t0\<lparr>plane := Some (next_ref w0 + 5),
      box := Some (next_ref w0 + 7), sphere := Some (next_ref w0 + 9)\<rparr>"
    and w1: "w1 = w0\<lparr>calls := calls w0 @ scene_calls math32_Pi cx (next_ref w0),
      next_ref := next_ref w0 + 10\<rparr>"
    by (simp_all add: Initialize_without_Control)
  from assms(1,3) have e: "emitted w0 w1 = scene_calls math32_Pi cx (next_ref w0)"
    using emitted_Initialize_None [of cx w0 math32_Pi t0] by simp
  from t1 assms(2) have still: "\<not> rotate_flag t1"
    by simp
  from render_frames_still [OF still] assms(4) have r: "r = Inr t1" and w2: "w2 = w1"
    by simp_all
  have u: "uniform_value (calls w2) (next_ref w0 + 3) u = Some 1" for u
    by (simp add: w2 w1 uniform_value_Initialize)
  have m: "mesh_materials (emitted w0 w1) =
      [Some (next_ref w0 + 3), Some (next_ref w0 + 3), Some (next_ref w0 + 3)]"
    by (simp add: e mesh_materials_scene)
  have s: "subscriptions (emitted w0 w1) = []"
    by (simp add: e subscriptions_scene)
  have ri: "rotation_increments (emitted w1 w2) = []"
    by (simp add: w2 emitted_same rotation_increments_def)
  from still t1 s r w2 ri m u show ?thesis
    by auto
qed

theorem nil_Control_keeps_still_witness:
  "let cx = example_Context\<lparr>Control := None\<rparr>;
       i = ShaderGeometry_Initialize 3 cx ShaderGeometry_zero example_world;
       f = render_frames [cx, cx\<lparr>FrameDelta := 1 / 30\<rparr>] (fst i) (snd i)
   in Control cx = None \<and>
      \<not> rotate_flag ShaderGeometry_zero \<and>
      \<not> rotate_flag (fst i) \<and>
      showWireframe (fst i) = 0 \<and>
      fst f = Inr (fst i) \<and> snd f = snd i \<and>
      (\<exists>mat.
        mesh_materials (emitted example_world (snd i)) = [Some mat, Some mat, Some mat] \<and>
        (\<forall>u. uniform_value (calls (snd f)) mat u = Some 1))"
proof -
  let ?cx = "example_Context\<lparr>Control := None\<rparr>"
  let ?i = "ShaderGeometry_Initialize 3 ?cx ShaderGeometry_zero example_world"
  let ?f = "render_frames [?cx, ?cx\<lparr>FrameDelta := 1 / 30\<rparr>] (fst ?i) (snd ?i)"
  have h1: "Control ?cx = None"
    by simp
  have h2: "\<not> rotate_flag ShaderGeometry_zero"
    by (simp add: ShaderGeometry_zero_def)
  have h3: "?i = (fst ?i, snd ?i)"
    by simp
  have h4: "?f = (fst ?f, snd ?f)"
    by simp
  have z: "showWireframe ShaderGeometry_zero = 0"
    by (simp add: ShaderGeometry_zero_def)
  from nil_Control_keeps_still [OF h1 h2 h3 h4] h1 h2 z show ?thesis
    unfolding Let_def by auto
qed

text \<open>
  C9.  \<open>Skybox.Render\<close> returns the demo object and the world it was given, whatever
  they and the application are; so does any number of frames.
\<close>

theorem Skybox_Render_changes_nothing:
  "Skybox_Render a t w = (t, w) \<and> Skybox_frames apps t w = (t, w)"
proof
  show "Skybox_Render a t w = (t, w)"
    by (simp add: Skybox_Render_def)
  show "Skybox_frames apps t w = (t, w)"
    by (induction apps) (simp_all add: Skybox_Render_def)
qed

end
